theory Spec2Isabelle
  imports
    Main
    "HOL-Library.Char_ord"
    "HOL-Library.List_Lexorder"
    "HOL-Library.Product_Lexorder"
    "HOL-Library.Multiset"
    "HOL-Library.Sublist"
begin

section \<open>Python values shared by the three servers\<close>

text \<open>
  The three servers (\<^verbatim>\<open>ea-memory\<close>, \<^verbatim>\<open>ea-journal\<close>, \<^verbatim>\<open>ea-prompts\<close>) keep
  their data in JSON files and read them with the same three lines:
  \<^verbatim>\<open>
    if storage_path.exists():
        try:
            return json.loads(storage_path.read_text(encoding="utf-8"))
        except (json.JSONDecodeError, IOError):
            return <default>
    return <default>
  \<close>
  A file is modelled by what these lines observe of it: whether the path exists and,
  if it does, what the expression \<^verbatim>\<open>json.loads(path.read_text(encoding="utf-8"))\<close>
  does: it returns a document or it raises. The exceptions are those of the Python
  library: \<^verbatim>\<open>read_text\<close> raises an \<^verbatim>\<open>OSError\<close> (\<^verbatim>\<open>IOError\<close> is the same class)
  when the file cannot be read and a \<^verbatim>\<open>UnicodeDecodeError\<close> when its bytes are not
  valid UTF-8; \<^verbatim>\<open>json.loads\<close> raises a \<^verbatim>\<open>JSONDecodeError\<close> when the text is not JSON.
  \<^verbatim>\<open>UnicodeDecodeError\<close> and \<^verbatim>\<open>JSONDecodeError\<close> are both subclasses of
  \<^verbatim>\<open>ValueError\<close> and neither is a subclass of the other.
  A document is a value of the type the server expects (documents of another shape are
  outside the model). Writing a file replaces it by the document written.
\<close>

datatype py_exception =
    IOError
  | JSONDecodeError
  | UnicodeDecodeError
  | TypeError
  | IndexError
  | OverflowError

datatype 'a json_file =
    Missing
  | Exists "py_exception + 'a"

text \<open>The clause \<^verbatim>\<open>except (json.JSONDecodeError, IOError)\<close>.\<close>

fun caught_on_load :: "py_exception \<Rightarrow> bool" where
  "caught_on_load JSONDecodeError = True"
| "caught_on_load IOError = True"
| "caught_on_load _ = False"

definition load_file :: "'a \<Rightarrow> 'a json_file \<Rightarrow> py_exception + 'a" where
  "load_file dflt f =
     (case f of
        Missing \<Rightarrow> Inr dflt
      | Exists (Inr doc) \<Rightarrow> Inr doc
      | Exists (Inl e) \<Rightarrow> (if caught_on_load e then Inr dflt else Inl e))"

definition save_file :: "'a \<Rightarrow> 'a json_file" where
  "save_file doc = Exists (Inr doc)"

subsection \<open>Strings\<close>

text \<open>
  A Python \<^verbatim>\<open>str\<close> is a \<^typ>\<open>string\<close>; its characters are compared by their code,
  and a shorter string is smaller than its extensions, as in Python. The strings of the
  model are ASCII text: the case conversions and the white space of \<^verbatim>\<open>strip\<close> are
  those of ASCII, and what Python folds or strips beyond ASCII is not modelled.
\<close>

definition newline :: char where
  "newline = char_of (10::nat)"

definition lower_char :: "char \<Rightarrow> char" where
  "lower_char c =
     (if CHR ''A'' \<le> c \<and> c \<le> CHR ''Z'' then char_of (of_char c + (32::nat)) else c)"

definition upper_char :: "char \<Rightarrow> char" where
  "upper_char c =
     (if CHR ''a'' \<le> c \<and> c \<le> CHR ''z'' then char_of (of_char c - (32::nat)) else c)"

definition lower :: "string \<Rightarrow> string" where
  "lower s = map lower_char s"

definition upper :: "string \<Rightarrow> string" where
  "upper s = map upper_char s"

definition is_space :: "char \<Rightarrow> bool" where
  "is_space c = (of_char c \<in> {9, 10, 11, 12, 13, 28, 29, 30, 31, 32 :: nat})"

definition strip :: "string \<Rightarrow> string" where
  "strip s = rev (dropWhile is_space (rev (dropWhile is_space s)))"

text \<open>\<^verbatim>\<open>s.split(sep)\<close> for a separator of one character.\<close>

fun split_on :: "char \<Rightarrow> string \<Rightarrow> string list" where
  "split_on sep [] = [[]]"
| "split_on sep (c # cs) =
     (if c = sep then [] # split_on sep cs
      else (case split_on sep cs of
              [] \<Rightarrow> [[c]]
            | w # ws \<Rightarrow> (c # w) # ws))"

text \<open>\<^verbatim>\<open>sep.join(xs)\<close>.\<close>

fun join :: "string \<Rightarrow> string list \<Rightarrow> string" where
  "join sep [] = []"
| "join sep [x] = x"
| "join sep (x # y # ys) = x @ sep @ join sep (y # ys)"

text \<open>\<^verbatim>\<open>q in s\<close> for strings.\<close>

fun contains :: "string \<Rightarrow> string \<Rightarrow> bool" where
  "contains [] q = (q = [])"
| "contains (c # cs) q = (prefix q (c # cs) \<or> contains cs q)"

text \<open>Decimal digits of a natural number, as \<^verbatim>\<open>str(n)\<close> writes them.\<close>

definition digit_char :: "nat \<Rightarrow> char" where
  "digit_char d = char_of (48 + d)"

fun digits :: "nat \<Rightarrow> string" where
  "digits n = (if n < 10 then [digit_char n] else digits (n div 10) @ [digit_char (n mod 10)])"

declare digits.simps [simp del]

definition zfill :: "nat \<Rightarrow> string \<Rightarrow> string" where
  "zfill w s = replicate (w - length s) CHR ''0'' @ s"

text \<open>
  The format \<^verbatim>\<open>{n:0wd}\<close> of an integer: at least \<open>w\<close> characters, padded with zeros
  after the sign.
\<close>

definition fmt_0d :: "nat \<Rightarrow> int \<Rightarrow> string" where
  "fmt_0d w n =
     (if n < 0 then CHR ''-'' # zfill (w - 1) (digits (nat (- n)))
      else zfill w (digits (nat n)))"

definition str_int :: "int \<Rightarrow> string" where
  "str_int n = (if n < 0 then CHR ''-'' # digits (nat (- n)) else digits (nat n))"

text \<open>
  A list sorted by \<^verbatim>\<open>xs.sort(key=f)\<close> is sorted stably; with \<^verbatim>\<open>reverse=True\<close> the
  keys descend and elements of equal key still keep their order, which is what sorting
  the reversed list and reversing the result gives.
\<close>

definition py_sort :: "('a \<Rightarrow> 'k::linorder) \<Rightarrow> 'a list \<Rightarrow> 'a list" where
  "py_sort f xs = sort_key f xs"

definition py_sort_reverse :: "('a \<Rightarrow> 'k::linorder) \<Rightarrow> 'a list \<Rightarrow> 'a list" where
  "py_sort_reverse f xs = rev (sort_key f (rev xs))"


section \<open>The memory server (\<^verbatim>\<open>mcps/ea-memory/server.py\<close>)\<close>

subsection \<open>Data\<close>

text \<open>A memory as \<^verbatim>\<open>ea_remember\<close> builds it, and the document of \<^verbatim>\<open>memories.json\<close>.\<close>

record memory =
  mem_id :: string
  mem_content :: string
  mem_tags :: "string list"
  mem_importance :: int
  mem_created_at :: string

record memory_store =
  memories :: "memory list"
  next_id :: int

text \<open>
  The input models, as the tools receive them after validation. An \<^verbatim>\<open>Optional\<close>
  field is an option; the integer fields with a lower bound of 0 or 1 are naturals.
\<close>

record RememberInput =
  remember_content :: string
  remember_tags :: "string option"
  remember_importance :: "int option"

record RecallInput =
  recall_query :: string
  recall_tags :: "string option"
  recall_limit :: "nat option"

record ListInput =
  list_tags :: "string option"
  list_limit :: "nat option"
  list_offset :: "nat option"

record ForgetInput =
  forget_memory_id :: string
  forget_confirm :: bool

subsection \<open>Storage\<close>

definition empty_store :: memory_store where
  "empty_store = \<lparr>memories = [], next_id = 1\<rparr>"

definition load_memories :: "memory_store json_file \<Rightarrow> py_exception + memory_store" where
  "load_memories f = load_file empty_store f"

definition save_memories :: "memory_store \<Rightarrow> memory_store json_file" where
  "save_memories data = save_file data"

text \<open>\<^verbatim>\<open>generate_id\<close> returns the id and leaves the counter of \<open>data\<close> incremented.\<close>

definition generate_id :: "memory_store \<Rightarrow> string \<times> memory_store" where
  "generate_id data =
     (''mem_'' @ fmt_0d 4 (next_id data), data\<lparr>next_id := next_id data + 1\<rparr>)"

definition parse_tags :: "string option \<Rightarrow> string list" where
  "parse_tags tags_str =
     (case tags_str of
        None \<Rightarrow> []
      | Some s \<Rightarrow>
          (if s = [] then []
           else map (\<lambda>t. lower (strip t)) (filter (\<lambda>t. strip t \<noteq> []) (split_on CHR '','' s))))"

subsection \<open>\<^verbatim>\<open>ea_remember\<close>\<close>

text \<open>
  \<open>now\<close> is the value of \<^verbatim>\<open>datetime.now(timezone.utc).isoformat()\<close> at the call.
  \<open>remember\<close> is the body between loading and saving: it returns the new memory and
  the updated document.
\<close>

definition remember :: "RememberInput \<Rightarrow> string \<Rightarrow> memory_store \<Rightarrow> memory \<times> memory_store" where
  "remember params now data =
     (let tag_list = parse_tags (remember_tags params);
          importance = (case remember_importance params of
                          None \<Rightarrow> 50
                        | Some i \<Rightarrow> (if i = 0 then 50 else i));
          (new_id, data1) = generate_id data;
          memory = \<lparr>mem_id = new_id, mem_content = remember_content params,
                    mem_tags = tag_list, mem_importance = importance,
                    mem_created_at = now\<rparr>
      in (memory, data1\<lparr>memories := memories data1 @ [memory]\<rparr>))"

definition remember_message :: "memory \<Rightarrow> string" where
  "remember_message memory =
     ''Remembered: '' @ mem_id memory @ [newline] @
     ''Tags: '' @ (if mem_tags memory \<noteq> [] then join '', '' (mem_tags memory) else ''none'')
       @ [newline] @
     ''Importance: '' @ str_int (mem_importance memory) @ ''/100'' @ [newline] @
     ''Created: '' @ take 10 (mem_created_at memory)"

definition ea_remember_memory ::
  "RememberInput \<Rightarrow> string \<Rightarrow> memory_store json_file
     \<Rightarrow> py_exception + (memory \<times> memory_store json_file)" where
  "ea_remember_memory params now f =
     (case load_memories f of
        Inl e \<Rightarrow> Inl e
      | Inr data \<Rightarrow>
          (let (memory, data1) = remember params now data
           in Inr (memory, save_memories data1)))"

definition ea_remember ::
  "RememberInput \<Rightarrow> string \<Rightarrow> memory_store json_file
     \<Rightarrow> py_exception + (string \<times> memory_store json_file)" where
  "ea_remember params now f =
     (case ea_remember_memory params now f of
        Inl e \<Rightarrow> Inl e
      | Inr (memory, f1) \<Rightarrow> Inr (remember_message memory, f1))"

subsection \<open>\<^verbatim>\<open>ea_recall\<close>\<close>

text \<open>The tag test shared by \<^verbatim>\<open>ea_recall\<close> and \<^verbatim>\<open>ea_list\<close>.\<close>

definition tags_pass :: "string list \<Rightarrow> memory \<Rightarrow> bool" where
  "tags_pass filter_tags mem =
     (filter_tags = [] \<or> list_ex (\<lambda>t. t \<in> set (mem_tags mem)) filter_tags)"

definition recall_pass :: "string \<Rightarrow> string list \<Rightarrow> memory \<Rightarrow> bool" where
  "recall_pass query_lower filter_tags mem =
     (contains (lower (mem_content mem)) query_lower \<and> tags_pass filter_tags mem)"

text \<open>The sort key \<^verbatim>\<open>(-m["importance"], m["created_at"])\<close>.\<close>

definition recall_key :: "memory \<Rightarrow> int \<times> string" where
  "recall_key m = (- mem_importance m, mem_created_at m)"

text \<open>
  What \<^verbatim>\<open>ea_recall\<close> has computed when it formats its answer: one of its two messages,
  or the number of matches and the memories shown.
\<close>

datatype recall_result =
    Recall_Nothing_Stored
  | Recall_No_Match string
  | Recall_Found nat "memory list"

definition recall :: "RecallInput \<Rightarrow> memory_store \<Rightarrow> recall_result" where
  "recall params data =
     (if memories data = [] then Recall_Nothing_Stored
      else
        (let filter_tags = parse_tags (recall_tags params);
             query_lower = lower (recall_query params);
             results = filter (recall_pass query_lower filter_tags) (memories data);
             sorted_results = py_sort recall_key results;
             total_matches = length sorted_results;
             shown = (case recall_limit params of
                        None \<Rightarrow> sorted_results
                      | Some n \<Rightarrow> take n sorted_results)
         in if shown = [] then Recall_No_Match (recall_query params)
            else Recall_Found total_matches shown))"

definition recall_block :: "memory \<Rightarrow> string" where
  "recall_block mem =
     ''## ['' @ mem_id mem @ ''] Importance: '' @ str_int (mem_importance mem) @ ''/100''
       @ [newline] @
     ''**Tags:** '' @
       (if join '', '' (mem_tags mem) = [] then ''none'' else join '', '' (mem_tags mem))
       @ [newline] @
     ''**Created:** '' @ take 10 (mem_created_at mem) @ [newline, newline] @
     mem_content mem @ [newline, newline] @
     ''---''"

fun recall_text :: "recall_result \<Rightarrow> string" where
  "recall_text Recall_Nothing_Stored =
     ''No memories stored yet. Use ea_remember to store your first memory.''"
| "recall_text (Recall_No_Match q) = ''No memories found matching: '' @ q"
| "recall_text (Recall_Found total_matches shown) =
     join [newline]
       ([''# Found '' @ digits total_matches @ '' memories (showing '' @ digits (length shown)
           @ '')'' @ [newline]]
        @ map recall_block shown
        @ (if total_matches > length shown
           then [[newline] @ ''*'' @ digits (total_matches - length shown)
                   @ '' more results available. Increase limit to see more.*'']
           else []))"

definition recall_call :: "RecallInput \<Rightarrow> memory_store json_file \<Rightarrow> py_exception + recall_result" where
  "recall_call params f =
     (case load_memories f of
        Inl e \<Rightarrow> Inl e
      | Inr data \<Rightarrow> Inr (recall params data))"

definition ea_recall :: "RecallInput \<Rightarrow> memory_store json_file \<Rightarrow> py_exception + string" where
  "ea_recall params f =
     (case recall_call params f of
        Inl e \<Rightarrow> Inl e
      | Inr r \<Rightarrow> Inr (recall_text r))"


subsection \<open>\<^verbatim>\<open>ea_list\<close>\<close>

text \<open>
  What \<^verbatim>\<open>ea_list\<close> has computed when it formats its answer: one of its three messages,
  or the page with the number of matches and the offset. The slice
  \<^verbatim>\<open>results[offset:offset + limit]\<close> raises \<^verbatim>\<open>TypeError\<close> when one of the two is
  \<^verbatim>\<open>None\<close>.
\<close>

datatype list_result =
    List_Nothing_Stored
  | List_No_More nat
  | List_No_Tag_Match "string option"
  | List_Page "memory list" nat nat

definition list_memories :: "ListInput \<Rightarrow> memory_store \<Rightarrow> py_exception + list_result" where
  "list_memories params data =
     (if memories data = [] then Inr List_Nothing_Stored
      else
        (let filter_tags = parse_tags (list_tags params);
             results = filter (tags_pass filter_tags) (memories data);
             sorted_results = py_sort_reverse mem_created_at results;
             total_matches = length sorted_results
         in case (list_offset params, list_limit params) of
              (Some offset, Some limit) \<Rightarrow>
                (let paginated = take limit (drop offset sorted_results)
                 in if paginated = []
                    then (if offset > 0 then Inr (List_No_More total_matches)
                          else Inr (List_No_Tag_Match (list_tags params)))
                    else Inr (List_Page paginated total_matches offset))
            | _ \<Rightarrow> Inl TypeError))"

definition list_row :: "memory \<Rightarrow> string" where
  "list_row mem =
     (let preview0 = map (\<lambda>c. if c = CHR ''|'' then CHR ''/'' else c)
                       (map (\<lambda>c. if c = newline then CHR '' '' else c)
                          (take 50 (mem_content mem)));
          preview = (if length (mem_content mem) > 50 then preview0 @ ''...'' else preview0);
          joined = join '', '' (take 3 (mem_tags mem));
          tags_str = (if joined = [] then ''-'' else joined)
      in ''| '' @ mem_id mem @ '' | '' @ preview @ '' | '' @ tags_str @ '' | ''
         @ str_int (mem_importance mem) @ '' | '' @ take 10 (mem_created_at mem) @ '' |'')"

fun list_text :: "list_result \<Rightarrow> string" where
  "list_text List_Nothing_Stored =
     ''No memories stored yet. Use ea_remember to store your first memory.''"
| "list_text (List_No_More total_matches) = ''No more memories. Total: '' @ digits total_matches"
| "list_text (List_No_Tag_Match tags) =
     ''No memories found with tags: '' @ (case tags of None \<Rightarrow> ''None'' | Some s \<Rightarrow> s)"
| "list_text (List_Page paginated total_matches offset) =
     (let has_more = (offset + length paginated < total_matches);
          next_offset = offset + length paginated
      in join [newline]
           ([''# Memories ('' @ digits (length paginated) @ '' of '' @ digits total_matches
               @ '')'' @ [newline],
             ''| ID | Preview | Tags | Importance | Created |'',
             ''|-----|---------|------|------------|---------|'']
            @ map list_row paginated
            @ [[]]
            @ (if has_more
               then [''*More results available. Use offset='' @ digits next_offset
                       @ '' to see next page.*'']
               else [])
            @ [''**Total:** '' @ digits total_matches @ '' | **Showing:** ''
                 @ digits (offset + 1) @ ''-'' @ digits (offset + length paginated)]))"

definition list_call :: "ListInput \<Rightarrow> memory_store json_file \<Rightarrow> py_exception + list_result" where
  "list_call params f =
     (case load_memories f of
        Inl e \<Rightarrow> Inl e
      | Inr data \<Rightarrow> list_memories params data)"

definition ea_list :: "ListInput \<Rightarrow> memory_store json_file \<Rightarrow> py_exception + string" where
  "ea_list params f =
     (case list_call params f of
        Inl e \<Rightarrow> Inl e
      | Inr r \<Rightarrow> Inr (list_text r))"

subsection \<open>\<^verbatim>\<open>ea_forget\<close>\<close>

text \<open>
  The loop over \<^verbatim>\<open>enumerate(data["memories"])\<close>: the first memory with the id is
  popped; the result is that memory and the list without it.
\<close>

fun pop_by_id :: "string \<Rightarrow> memory list \<Rightarrow> (memory \<times> memory list) option" where
  "pop_by_id mid [] = None"
| "pop_by_id mid (m # ms) =
     (if mem_id m = mid then Some (m, ms)
      else (case pop_by_id mid ms of
              None \<Rightarrow> None
            | Some (removed, rest) \<Rightarrow> Some (removed, m # rest)))"

definition forget_unconfirmed :: string where
  "forget_unconfirmed = ''Set confirm=True to delete. This action cannot be undone.''"

definition forget_not_found :: "string \<Rightarrow> string" where
  "forget_not_found mid =
     ''Memory not found: '' @ mid @ ''. Use ea_list to see available memory IDs.''"

definition forget_deleted :: "string \<Rightarrow> memory \<Rightarrow> string" where
  "forget_deleted mid removed =
     ''Deleted: '' @ mid @ [newline] @ ''Content was: '' @ take 100 (mem_content removed)
       @ (if length (mem_content removed) > 100 then ''...'' else [])"

text \<open>
  The result is the answer and the file as the call leaves it: the file given when
  nothing is written.
\<close>

definition ea_forget ::
  "ForgetInput \<Rightarrow> memory_store json_file
     \<Rightarrow> py_exception + (string \<times> memory_store json_file)" where
  "ea_forget params f =
     (if \<not> forget_confirm params then Inr (forget_unconfirmed, f)
      else
        (case load_memories f of
           Inl e \<Rightarrow> Inl e
         | Inr data \<Rightarrow>
             (case pop_by_id (forget_memory_id params) (memories data) of
                Some (removed, rest) \<Rightarrow>
                  Inr (forget_deleted (forget_memory_id params) removed,
                       save_memories (data\<lparr>memories := rest\<rparr>))
              | None \<Rightarrow> Inr (forget_not_found (forget_memory_id params), f))))"


section \<open>The journal server (\<^verbatim>\<open>mcps/ea-journal/server.py\<close>)\<close>

subsection \<open>Dates and times\<close>

text \<open>
  A UTC \<^verbatim>\<open>datetime\<close>: the date by its proleptic Gregorian ordinal
  (\<^verbatim>\<open>date.toordinal()\<close>, day 1 is 0001-01-01) and the time of day. Subtracting
  \<^verbatim>\<open>timedelta(days=i)\<close> lowers the ordinal by \<open>i\<close> and raises \<^verbatim>\<open>OverflowError\<close>
  below day 1. The conversion of an ordinal to year, month and day is the one of
  Python's \<^verbatim>\<open>datetime\<close> module.
\<close>

record datetime =
  dt_ordinal :: int
  dt_hour :: nat
  dt_minute :: nat
  dt_second :: nat
  dt_microsecond :: nat

definition minus_days :: "datetime \<Rightarrow> nat \<Rightarrow> py_exception + datetime" where
  "minus_days d i =
     (if dt_ordinal d - int i < 1 then Inl OverflowError
      else Inr (d\<lparr>dt_ordinal := dt_ordinal d - int i\<rparr>))"

definition days_before_month :: "int \<Rightarrow> int" where
  "days_before_month m =
     [0, 0, 31, 59, 90, 120, 151, 181, 212, 243, 273, 304, 334] ! nat m"

definition days_in_month :: "int \<Rightarrow> int" where
  "days_in_month m = [0, 31, 28, 31, 30, 31, 30, 31, 31, 30, 31, 30, 31] ! nat m"

definition ord2ymd :: "int \<Rightarrow> int \<times> int \<times> int" where
  "ord2ymd ordinal =
     (let n0 = ordinal - 1;
          n400 = n0 div 146097; na = n0 mod 146097;
          n100 = na div 36524; nb = na mod 36524;
          n4 = nb div 1461; nc = nb mod 1461;
          n1 = nc div 365; n = nc mod 365;
          year = n400 * 400 + 1 + n100 * 100 + n4 * 4 + n1
      in if n1 = 4 \<or> n100 = 4 then (year - 1, 12, 31)
         else
           (let leapyear = (n1 = 3 \<and> (n4 \<noteq> 24 \<or> n100 = 3));
                month = (n + 50) div 32;
                preceding = days_before_month month
                              + (if month > 2 \<and> leapyear then 1 else 0)
            in if preceding > n
               then (let month1 = month - 1;
                         preceding1 = preceding
                           - (days_in_month month1
                                + (if month1 = 2 \<and> leapyear then 1 else 0))
                     in (year, month1, n - preceding1 + 1))
               else (year, month, n - preceding + 1)))"

text \<open>
  \<^verbatim>\<open>d.strftime('%Y-%m-%d')\<close> of the date of an ordinal: the C library writes the year
  without padding (\<^verbatim>\<open>999-12-31\<close>), the month and the day with two digits.
\<close>

definition date_name :: "int \<Rightarrow> string" where
  "date_name ordinal =
     (case ord2ymd ordinal of
        (y, m, dd) \<Rightarrow> str_int y @ ''-'' @ fmt_0d 2 m @ ''-'' @ fmt_0d 2 dd)"

definition strftime_ymd :: "datetime \<Rightarrow> string" where
  "strftime_ymd d = date_name (dt_ordinal d)"

text \<open>The date of \<^verbatim>\<open>d.isoformat()\<close>, with a year of four digits (\<^verbatim>\<open>0999-12-31\<close>).\<close>

definition iso_date :: "int \<Rightarrow> string" where
  "iso_date ordinal =
     (case ord2ymd ordinal of
        (y, m, dd) \<Rightarrow> fmt_0d 4 y @ ''-'' @ fmt_0d 2 m @ ''-'' @ fmt_0d 2 dd)"

definition strftime_HM :: "datetime \<Rightarrow> string" where
  "strftime_HM d = fmt_0d 2 (int (dt_hour d)) @ '':'' @ fmt_0d 2 (int (dt_minute d))"

definition strftime_HMS :: "datetime \<Rightarrow> string" where
  "strftime_HMS d =
     fmt_0d 2 (int (dt_hour d)) @ fmt_0d 2 (int (dt_minute d)) @ fmt_0d 2 (int (dt_second d))"

text \<open>
  \<^verbatim>\<open>d.isoformat()\<close> of a UTC time: the microseconds are written only when they are
  not zero.
\<close>

definition isoformat :: "datetime \<Rightarrow> string" where
  "isoformat d =
     iso_date (dt_ordinal d) @ ''T'' @ fmt_0d 2 (int (dt_hour d)) @ '':''
       @ fmt_0d 2 (int (dt_minute d))
       @ '':'' @ fmt_0d 2 (int (dt_second d))
       @ (if dt_microsecond d = 0 then [] else ''.'' @ fmt_0d 6 (int (dt_microsecond d)))
       @ ''+00:00''"

subsection \<open>Data\<close>

datatype EntryType = WORK | DECISION | BLOCKER | NOTE | WIN | LEARNING

fun entry_type_value :: "EntryType \<Rightarrow> string" where
  "entry_type_value WORK = ''work''"
| "entry_type_value DECISION = ''decision''"
| "entry_type_value BLOCKER = ''blocker''"
| "entry_type_value NOTE = ''note''"
| "entry_type_value WIN = ''win''"
| "entry_type_value LEARNING = ''learning''"

record entry =
  entry_id :: string
  entry_content :: string
  entry_type :: string
  entry_project :: "string option"
  entry_timestamp :: string

record LogInput =
  log_content :: string
  log_entry_type :: EntryType
  log_project :: "string option"

text \<open>
  \<open>review_date\<close> holds the value of \<^verbatim>\<open>parse_date(params.date)\<close>: the validator of the
  input model has accepted the string, so that the parse succeeds.
\<close>

record ReviewInput =
  review_date :: "datetime option"
  review_days :: "nat option"
  review_entry_type :: "EntryType option"

subsection \<open>Storage\<close>

text \<open>
  The storage directory: the file of each name \<^verbatim>\<open>YYYY-MM-DD\<close> (\<^verbatim>\<open>.json\<close> is left out).
\<close>

type_synonym journal = "string \<Rightarrow> entry list json_file"

definition get_journal_file :: "datetime \<Rightarrow> string" where
  "get_journal_file date = strftime_ymd date"

definition load_journal :: "journal \<Rightarrow> datetime \<Rightarrow> py_exception + entry list" where
  "load_journal j date = load_file [] (j (get_journal_file date))"

definition save_journal :: "journal \<Rightarrow> datetime \<Rightarrow> entry list \<Rightarrow> journal" where
  "save_journal j date entries = j(get_journal_file date := save_file entries)"

text \<open>\<^verbatim>\<open>format_entry\<close>; \<^verbatim>\<open>split("T")[1]\<close> raises \<^verbatim>\<open>IndexError\<close> without a \<^verbatim>\<open>T\<close>.\<close>

definition format_entry :: "entry \<Rightarrow> bool \<Rightarrow> py_exception + string" where
  "format_entry e show_date =
     (case split_on CHR ''T'' (entry_timestamp e) of
        _ # part # _ \<Rightarrow>
          (let time_str = take 5 part;
               date_prefix = (if show_date then take 10 (entry_timestamp e) @ '' '' else []);
               project_str = (case entry_project e of
                                None \<Rightarrow> []
                              | Some p \<Rightarrow> (if p = [] then [] else '' ['' @ p @ '']''))
           in Inr (''**['' @ date_prefix @ time_str @ ''] '' @ upper (entry_type e)
                   @ project_str @ ''**'' @ [newline] @ entry_content e @ [newline]))
      | _ \<Rightarrow> Inl IndexError)"

subsection \<open>\<^verbatim>\<open>ea_log\<close>\<close>

text \<open>
  \<open>hash\<close> is Python's \<^verbatim>\<open>hash\<close> on strings, which changes from process to process,
  and \<open>now\<close> the value of \<^verbatim>\<open>datetime.now(timezone.utc)\<close>.
\<close>

definition log_entry :: "(string \<Rightarrow> int) \<Rightarrow> datetime \<Rightarrow> LogInput \<Rightarrow> entry" where
  "log_entry hash now params =
     \<lparr>entry_id = ''entry_'' @ strftime_HMS now @ ''_''
                    @ fmt_0d 4 (hash (log_content params) mod 10000),
      entry_content = log_content params,
      entry_type = entry_type_value (log_entry_type params),
      entry_project = log_project params,
      entry_timestamp = isoformat now\<rparr>"

definition log_message :: "datetime \<Rightarrow> LogInput \<Rightarrow> string" where
  "log_message now params =
     (let project_line = (case log_project params of
                            None \<Rightarrow> []
                          | Some p \<Rightarrow> (if p = [] then [] else ''Project: '' @ p @ [newline]));
          preview = take 100 (log_content params)
                      @ (if length (log_content params) > 100 then ''...'' else [])
      in ''Logged '' @ upper (entry_type_value (log_entry_type params)) @ '' at ''
         @ strftime_HM now @ [newline] @ project_line @ ''Entry: '' @ preview)"

definition ea_log ::
  "(string \<Rightarrow> int) \<Rightarrow> datetime \<Rightarrow> LogInput \<Rightarrow> journal \<Rightarrow> py_exception + (string \<times> journal)" where
  "ea_log hash now params j =
     (case load_journal j now of
        Inl e \<Rightarrow> Inl e
      | Inr entries \<Rightarrow>
          Inr (log_message now params,
               save_journal j now (entries @ [log_entry hash now params])))"


subsection \<open>\<^verbatim>\<open>ea_review\<close>\<close>

text \<open>The first exception of a list of results, or all the values.\<close>

fun all_or_first_error :: "('e + 'a) list \<Rightarrow> 'e + 'a list" where
  "all_or_first_error [] = Inr []"
| "all_or_first_error (Inl e # rs) = Inl e"
| "all_or_first_error (Inr x # rs) =
     (case all_or_first_error rs of Inl e \<Rightarrow> Inl e | Inr xs \<Rightarrow> Inr (x # xs))"

text \<open>\<^verbatim>\<open>params.days\<close> when it is given and not zero: the test \<^verbatim>\<open>if params.days\<close>.\<close>

definition days_given :: "ReviewInput \<Rightarrow> nat option" where
  "days_given params =
     (case review_days params of
        None \<Rightarrow> None
      | Some n \<Rightarrow> (if n = 0 then None else Some n))"

text \<open>The date range: \<^verbatim>\<open>if params.days: ... elif params.date: ... else: ...\<close>.\<close>

definition review_dates :: "datetime \<Rightarrow> ReviewInput \<Rightarrow> py_exception + datetime list" where
  "review_dates now params =
     (case days_given params of
        Some n \<Rightarrow> all_or_first_error (map (minus_days now) [0 ..< n])
      | None \<Rightarrow>
          (case review_date params of
             Some target \<Rightarrow> Inr [target]
           | None \<Rightarrow> Inr [now]))"

text \<open>
  The entries of the files of the dates, in the order of the dates, each with the
  \<^verbatim>\<open>_date\<close> the loop stamps on it.
\<close>

fun collect_entries :: "journal \<Rightarrow> datetime list \<Rightarrow> py_exception + (string \<times> entry) list" where
  "collect_entries j [] = Inr []"
| "collect_entries j (d # ds) =
     (case load_journal j d of
        Inl e \<Rightarrow> Inl e
      | Inr entries \<Rightarrow>
          (case collect_entries j ds of
             Inl e \<Rightarrow> Inl e
           | Inr rest \<Rightarrow> Inr (map (\<lambda>entry. (strftime_ymd d, entry)) entries @ rest)))"

text \<open>
  The loop that writes the report: a date header whenever the \<^verbatim>\<open>_date\<close> differs
  from the one before, then the entry.
\<close>

datatype review_item = Date_Header string | Entry_Item entry

fun review_items :: "string option \<Rightarrow> (string \<times> entry) list \<Rightarrow> review_item list" where
  "review_items current_date [] = []"
| "review_items current_date ((entry_date, e) # rest) =
     (if Some entry_date \<noteq> current_date
      then Date_Header entry_date # Entry_Item e # review_items (Some entry_date) rest
      else Entry_Item e # review_items (Some entry_date) rest)"

fun item_text :: "review_item \<Rightarrow> py_exception + string" where
  "item_text (Date_Header entry_date) = Inr ([newline] @ ''## '' @ entry_date @ [newline])"
| "item_text (Entry_Item e) = format_entry e False"

text \<open>
  What \<^verbatim>\<open>ea_review\<close> has computed when it formats its answer: one of its three
  messages, or the report: its first line and the sorted entries with their
  \<^verbatim>\<open>_date\<close>. \<^verbatim>\<open>dates[0]\<close> raises \<^verbatim>\<open>IndexError\<close> on an empty list.
\<close>

datatype review_result =
    Review_No_Entries_Days nat
  | Review_No_Entries_Date string
  | Review_No_Type_Entries string
  | Review_Report string "(string \<times> entry) list"

definition first_date :: "datetime list \<Rightarrow> py_exception + string" where
  "first_date dates = (case dates of [] \<Rightarrow> Inl IndexError | d # _ \<Rightarrow> Inr (strftime_ymd d))"

definition review_report ::
  "ReviewInput \<Rightarrow> datetime list \<Rightarrow> (string \<times> entry) list \<Rightarrow> py_exception + review_result" where
  "review_report params dates entries =
     (let sorted_entries = py_sort_reverse (\<lambda>(d, e). entry_timestamp e) entries
      in case days_given params of
           Some n \<Rightarrow>
             Inr (Review_Report (''# Journal - Last '' @ digits n @ '' Days'' @ [newline])
                    sorted_entries)
         | None \<Rightarrow>
             (case first_date dates of
                Inl e \<Rightarrow> Inl e
              | Inr d \<Rightarrow> Inr (Review_Report (''# Journal - '' @ d @ [newline]) sorted_entries)))"

definition review :: "datetime \<Rightarrow> ReviewInput \<Rightarrow> journal \<Rightarrow> py_exception + review_result" where
  "review now params j =
     (case review_dates now params of
        Inl e \<Rightarrow> Inl e
      | Inr dates \<Rightarrow>
          (case collect_entries j dates of
             Inl e \<Rightarrow> Inl e
           | Inr all_entries \<Rightarrow>
               (if all_entries = []
                then (case days_given params of
                        Some n \<Rightarrow> Inr (Review_No_Entries_Days n)
                      | None \<Rightarrow>
                          (case first_date dates of
                             Inl e \<Rightarrow> Inl e
                           | Inr d \<Rightarrow> Inr (Review_No_Entries_Date d)))
                else
                  (case review_entry_type params of
                     None \<Rightarrow> review_report params dates all_entries
                   | Some t \<Rightarrow>
                       (let filtered =
                              filter (\<lambda>(d, e). entry_type e = entry_type_value t) all_entries
                        in if filtered = []
                           then Inr (Review_No_Type_Entries (entry_type_value t))
                           else review_report params dates filtered)))))"

fun review_text :: "review_result \<Rightarrow> py_exception + string" where
  "review_text (Review_No_Entries_Days n) =
     Inr (''No journal entries in the last '' @ digits n @ '' days.'')"
| "review_text (Review_No_Entries_Date d) = Inr (''No journal entries for '' @ d @ ''.'')"
| "review_text (Review_No_Type_Entries t) = Inr (''No '' @ t @ '' entries found.'')"
| "review_text (Review_Report title sorted_entries) =
     (case all_or_first_error (map item_text (review_items None sorted_entries)) of
        Inl e \<Rightarrow> Inl e
      | Inr body \<Rightarrow>
          Inr (join [newline]
                 ([title,
                   ''**Total entries:** '' @ digits (length sorted_entries) @ [newline],
                   ''---'' @ [newline]]
                  @ body)))"

definition ea_review :: "datetime \<Rightarrow> ReviewInput \<Rightarrow> journal \<Rightarrow> py_exception + string" where
  "ea_review now params j =
     (case review now params j of
        Inl e \<Rightarrow> Inl e
      | Inr r \<Rightarrow> review_text r)"


section \<open>The prompt server (\<^verbatim>\<open>mcps/ea-prompts/server.py\<close>)\<close>

subsection \<open>Data\<close>

record prompt_argument =
  arg_name :: string
  arg_description :: string
  arg_required :: bool

record prompt =
  prompt_name :: string
  prompt_description :: string
  prompt_template :: string
  prompt_arguments :: "prompt_argument list"
  prompt_builtin :: bool
  prompt_created_at :: "string option"

text \<open>The document of \<^verbatim>\<open>custom_prompts.json\<close>: a dictionary from names to prompts.\<close>

type_synonym custom_prompts = "string \<rightharpoonup> prompt"

text \<open>The keys of the dictionary \<^verbatim>\<open>BUILTIN_PROMPTS\<close>.\<close>

definition BUILTIN_PROMPTS :: "string list" where
  "BUILTIN_PROMPTS = [''code-review'', ''explain-code'', ''write-tests'', ''refactor'', ''debug'']"

record AddPromptInput =
  add_name :: string
  add_description :: string
  add_template :: string
  add_arguments :: "string option"

record RemovePromptInput =
  remove_name :: string
  remove_confirm :: bool

subsection \<open>Storage\<close>

definition load_custom_prompts :: "custom_prompts json_file \<Rightarrow> py_exception + custom_prompts" where
  "load_custom_prompts f = load_file Map.empty f"

definition save_custom_prompts :: "custom_prompts \<Rightarrow> custom_prompts json_file" where
  "save_custom_prompts prompts = save_file prompts"

subsection \<open>\<^verbatim>\<open>ea_add_prompt\<close>\<close>

definition quoted :: "string \<Rightarrow> string" where
  "quoted s = [CHR 0x27] @ s @ [CHR 0x27]"

definition add_builtin_error :: "string \<Rightarrow> string" where
  "add_builtin_error name =
     ''Error: '' @ quoted name @ '' is a built-in prompt and cannot be overwritten.''"

text \<open>The loop over \<^verbatim>\<open>params.arguments.split(",")\<close>.\<close>

definition parse_arguments :: "string option \<Rightarrow> prompt_argument list" where
  "parse_arguments arguments =
     (case arguments of
        None \<Rightarrow> []
      | Some s \<Rightarrow>
          (if s = [] then []
           else map (\<lambda>arg. \<lparr>arg_name = strip arg,
                            arg_description = ''Value for '' @ strip arg,
                            arg_required = True\<rparr>)
                  (filter (\<lambda>arg. strip arg \<noteq> []) (split_on CHR '','' s))))"

definition new_prompt :: "AddPromptInput \<Rightarrow> string \<Rightarrow> prompt" where
  "new_prompt params now =
     \<lparr>prompt_name = add_name params,
      prompt_description = add_description params,
      prompt_template = add_template params,
      prompt_arguments = parse_arguments (add_arguments params),
      prompt_builtin = False,
      prompt_created_at = Some now\<rparr>"

definition add_message :: "AddPromptInput \<Rightarrow> string" where
  "add_message params =
     (let arg_list = parse_arguments (add_arguments params);
          args_display = (if arg_list \<noteq> [] then join '', '' (map arg_name arg_list) else ''none'')
      in ''Custom prompt added: '' @ add_name params @ [newline] @
         ''Description: '' @ add_description params @ [newline] @
         ''Arguments: '' @ args_display @ [newline, newline] @
         ''Use with: /prompt '' @ add_name params)"

text \<open>\<open>now\<close> is the value of \<^verbatim>\<open>datetime.now(timezone.utc).isoformat()\<close> at the call.\<close>

definition ea_add_prompt ::
  "AddPromptInput \<Rightarrow> string \<Rightarrow> custom_prompts json_file
     \<Rightarrow> py_exception + (string \<times> custom_prompts json_file)" where
  "ea_add_prompt params now f =
     (if add_name params \<in> set BUILTIN_PROMPTS then Inr (add_builtin_error (add_name params), f)
      else
        (case load_custom_prompts f of
           Inl e \<Rightarrow> Inl e
         | Inr custom \<Rightarrow>
             Inr (add_message params,
                  save_custom_prompts (custom(add_name params \<mapsto> new_prompt params now)))))"

subsection \<open>\<^verbatim>\<open>ea_remove_prompt\<close>\<close>

definition remove_unconfirmed :: string where
  "remove_unconfirmed = ''Set confirm=True to delete. This cannot be undone.''"

definition remove_builtin_error :: "string \<Rightarrow> string" where
  "remove_builtin_error name =
     ''Error: '' @ quoted name @ '' is a built-in prompt and cannot be removed.''"

definition remove_not_found :: "string \<Rightarrow> string" where
  "remove_not_found name =
     ''Custom prompt not found: '' @ name @ ''. Use ea_list_prompts to see available prompts.''"

definition ea_remove_prompt ::
  "RemovePromptInput \<Rightarrow> custom_prompts json_file
     \<Rightarrow> py_exception + (string \<times> custom_prompts json_file)" where
  "ea_remove_prompt params f =
     (if \<not> remove_confirm params then Inr (remove_unconfirmed, f)
      else if remove_name params \<in> set BUILTIN_PROMPTS
      then Inr (remove_builtin_error (remove_name params), f)
      else
        (case load_custom_prompts f of
           Inl e \<Rightarrow> Inl e
         | Inr custom \<Rightarrow>
             (case custom (remove_name params) of
                None \<Rightarrow> Inr (remove_not_found (remove_name params), f)
              | Some _ \<Rightarrow>
                  Inr (''Removed custom prompt: '' @ remove_name params,
                       save_custom_prompts (custom(remove_name params := None))))))"


section \<open>Sequences of calls\<close>

text \<open>
  A caller of the memory server: a list of calls of \<^verbatim>\<open>ea_remember\<close> (each with the
  time of the call) and \<^verbatim>\<open>ea_forget\<close>, run one after the other on the file. The
  result is the ids of the memories the \<^verbatim>\<open>ea_remember\<close> calls have stored, in the
  order of the calls, and the file at the end.
\<close>

datatype memory_call = Remember RememberInput string | Forget ForgetInput

fun run_calls ::
  "memory_call list \<Rightarrow> memory_store json_file
     \<Rightarrow> py_exception + (string list \<times> memory_store json_file)" where
  "run_calls [] f = Inr ([], f)"
| "run_calls (Remember params now # cs) f =
     (case ea_remember_memory params now f of
        Inl e \<Rightarrow> Inl e
      | Inr (memory, f1) \<Rightarrow>
          (case run_calls cs f1 of
             Inl e \<Rightarrow> Inl e
           | Inr (ids, f2) \<Rightarrow> Inr (mem_id memory # ids, f2)))"
| "run_calls (Forget params # cs) f =
     (case ea_forget params f of
        Inl e \<Rightarrow> Inl e
      | Inr (msg, f1) \<Rightarrow> run_calls cs f1)"

fun count_remember :: "memory_call list \<Rightarrow> nat" where
  "count_remember [] = 0"
| "count_remember (Remember params now # cs) = Suc (count_remember cs)"
| "count_remember (Forget params # cs) = count_remember cs"

text \<open>The number an id ends with: the decimal number after the four characters \<^verbatim>\<open>mem_\<close>.\<close>

definition digit_value :: "char \<Rightarrow> nat" where
  "digit_value c = of_char c - 48"

definition number_of :: "string \<Rightarrow> nat" where
  "number_of s = foldl (\<lambda>acc c. 10 * acc + digit_value c) 0 s"

definition id_suffix :: "string \<Rightarrow> int" where
  "id_suffix mid = int (number_of (drop 4 mid))"

definition counter_above_ids :: "memory_store \<Rightarrow> bool" where
  "counter_above_ids data = list_all (\<lambda>m. id_suffix (mem_id m) < next_id data) (memories data)"

text \<open>A list of calls of \<^verbatim>\<open>ea_log\<close>, each with the time of the call.\<close>

fun run_logs ::
  "(string \<Rightarrow> int) \<Rightarrow> (datetime \<times> LogInput) list \<Rightarrow> journal \<Rightarrow> py_exception + journal" where
  "run_logs hash [] j = Inr j"
| "run_logs hash ((now, params) # cs) j =
     (case ea_log hash now params j of
        Inl e \<Rightarrow> Inl e
      | Inr (msg, j1) \<Rightarrow> run_logs hash cs j1)"

text \<open>
  A caller paging through \<^verbatim>\<open>ea_list\<close>: the same tags and limit at each call, the
  offset advanced by the number of memories of the page, until a call returns none.
  The result is the list of the pages.
\<close>

fun page_items :: "list_result \<Rightarrow> memory list" where
  "page_items (List_Page paginated total_matches offset) = paginated"
| "page_items _ = []"

function list_pages ::
  "string option \<Rightarrow> nat \<Rightarrow> memory_store json_file \<Rightarrow> nat \<Rightarrow> py_exception + memory list list" where
  "list_pages tags limit f offset =
     (case list_call \<lparr>list_tags = tags, list_limit = Some limit, list_offset = Some offset\<rparr> f of
        Inl e \<Rightarrow> Inl e
      | Inr r \<Rightarrow>
          (if page_items r = [] then Inr []
           else (case list_pages tags limit f (offset + length (page_items r)) of
                   Inl e \<Rightarrow> Inl e
                 | Inr pages \<Rightarrow> Inr (page_items r # pages))))"
  by pat_completeness auto
termination
proof (relation "measure (\<lambda>(tags, limit, f, offset).
          (case load_memories f of
             Inl e \<Rightarrow> 0
           | Inr data \<Rightarrow> length (filter (tags_pass (parse_tags tags)) (memories data))) - offset)")
  show "wf (measure (\<lambda>(tags, limit, f, offset).
          (case load_memories f of
             Inl e \<Rightarrow> 0
           | Inr data \<Rightarrow> length (filter (tags_pass (parse_tags tags)) (memories data))) - offset))"
    by simp
next
  fix tags :: "string option" and limit :: nat and f :: "memory_store json_file"
    and offset :: nat and r :: list_result
  assume call: "list_call \<lparr>list_tags = tags, list_limit = Some limit, list_offset = Some offset\<rparr> f
                  = Inr r"
    and nonempty: "page_items r \<noteq> []"
  from call obtain data where data: "load_memories f = Inr data"
    and r: "list_memories \<lparr>list_tags = tags, list_limit = Some limit, list_offset = Some offset\<rparr> data
              = Inr r"
    by (auto simp: list_call_def split: sum.splits)
  let ?rs = "py_sort_reverse mem_created_at (filter (tags_pass (parse_tags tags)) (memories data))"
  from r nonempty have page: "page_items r = take limit (drop offset ?rs)"
    by (auto simp: list_memories_def Let_def split: if_splits)
  with nonempty have "offset < length ?rs"
    by (cases "offset < length ?rs") auto
  moreover have "length ?rs = length (filter (tags_pass (parse_tags tags)) (memories data))"
    by (simp add: py_sort_reverse_def)
  moreover from nonempty have "0 < length (page_items r)"
    by simp
  ultimately show "((tags, limit, f, offset + length (page_items r)), (tags, limit, f, offset))
      \<in> measure (\<lambda>(tags, limit, f, offset).
          (case load_memories f of
             Inl e \<Rightarrow> 0
           | Inr data \<Rightarrow> length (filter (tags_pass (parse_tags tags)) (memories data))) - offset)"
    using data by (cases "page_items r") simp_all
qed

declare list_pages.simps [simp del]

text \<open>The headers of a report, in their order.\<close>

fun item_headers :: "review_item list \<Rightarrow> string list" where
  "item_headers [] = []"
| "item_headers (Date_Header d # items) = d # item_headers items"
| "item_headers (Entry_Item e # items) = item_headers items"

section \<open>Orders and readings the properties are stated with\<close>

text \<open>
  The order of the answer of \<^verbatim>\<open>ea_recall\<close>: a memory of higher importance first and,
  of two memories of the same importance, the one whose creation timestamp is not the
  later.
\<close>

definition ranks_before :: "memory \<Rightarrow> memory \<Rightarrow> bool" where
  "ranks_before a b =
     (mem_importance a > mem_importance b
      \<or> (mem_importance a = mem_importance b \<and> mem_created_at a \<le> mem_created_at b))"

text \<open>
  Reading a report: each entry with the date of the header it stands under (\<open>current\<close>
  is the header read last).
\<close>

fun under_headers :: "string \<Rightarrow> review_item list \<Rightarrow> (string \<times> entry) list" where
  "under_headers current [] = []"
| "under_headers current (Date_Header d # items) = under_headers d items"
| "under_headers current (Entry_Item e # items) = (current, e) # under_headers current items"

text \<open>The day \<open>i\<close> days before \<open>now\<close>, at the same time of day.\<close>

definition window_day :: "datetime \<Rightarrow> nat \<Rightarrow> datetime" where
  "window_day now i = now\<lparr>dt_ordinal := dt_ordinal now - int i\<rparr>"

text \<open>
  Entries, each with the date of its file, whose timestamps are ISO timestamps of that
  date: the ten characters of the date, and a \<^verbatim>\<open>T\<close> before the time.
\<close>

definition dated_by_file :: "(string \<times> entry) list \<Rightarrow> bool" where
  "dated_by_file entries =
     list_all (\<lambda>(d, e). take 10 (entry_timestamp e) = d \<and> CHR ''T'' \<in> set (entry_timestamp e))
       entries"

section \<open>Sample data\<close>

definition alpha_memory :: memory where
  "alpha_memory =
     \<lparr>mem_id = ''mem_0001'', mem_content = ''alpha'', mem_tags = [],
      mem_importance = 50, mem_created_at = ''2024-01-01T10:00:00+00:00''\<rparr>"

definition alpha_store :: memory_store where
  "alpha_store = \<lparr>memories = [alpha_memory], next_id = 2\<rparr>"

definition summarize_prompt :: prompt where
  "summarize_prompt =
     \<lparr>prompt_name = ''summarize'', prompt_description = ''Summarize a text'',
      prompt_template = ''Summarize: {text}'',
      prompt_arguments = [\<lparr>arg_name = ''text'', arg_description = ''Value for text'',
                           arg_required = True\<rparr>],
      prompt_builtin = False, prompt_created_at = Some ''2024-01-01T10:00:00+00:00''\<rparr>"

definition summarize_again :: AddPromptInput where
  "summarize_again =
     \<lparr>add_name = ''summarize'', add_description = ''Summarize in one line'',
      add_template = ''One line: {text}'', add_arguments = Some ''text''\<rparr>"

definition first_ninety :: memory where
  "first_ninety = \<lparr>mem_id = ''mem_0001'', mem_content = ''Note on the API'', mem_tags = [''api''],
      mem_importance = 90, mem_created_at = ''2024-01-01T10:00:00+00:00''\<rparr>"

definition second_fifty :: memory where
  "second_fifty = \<lparr>mem_id = ''mem_0002'', mem_content = ''note on tests'', mem_tags = [],
      mem_importance = 50, mem_created_at = ''2024-01-01T10:00:00.250000+00:00''\<rparr>"

definition third_ninety :: memory where
  "third_ninety = \<lparr>mem_id = ''mem_0003'', mem_content = ''A NOTE on deploys'', mem_tags = [''ops''],
      mem_importance = 90, mem_created_at = ''2024-01-02T08:30:00+00:00''\<rparr>"

definition ranked_store :: memory_store where
  "ranked_store = \<lparr>memories = [first_ninety, second_fifty, third_ninety], next_id = 4\<rparr>"

definition noon_jan_3 :: datetime where
  "noon_jan_3 =
     \<lparr>dt_ordinal = 738888, dt_hour = 12, dt_minute = 0, dt_second = 0, dt_microsecond = 0\<rparr>"

definition noon_jan_2 :: datetime where
  "noon_jan_2 =
     \<lparr>dt_ordinal = 738887, dt_hour = 12, dt_minute = 0, dt_second = 0, dt_microsecond = 0\<rparr>"

definition jan_1_work :: entry where
  "jan_1_work =
     \<lparr>entry_id = ''entry_091500_0042'', entry_content = ''Wrote the parser'',
      entry_type = ''work'', entry_project = Some ''compiler'',
      entry_timestamp = ''2024-01-01T09:15:00+00:00''\<rparr>"

definition jan_2_note :: entry where
  "jan_2_note =
     \<lparr>entry_id = ''entry_143000_0007'', entry_content = ''Remember to update the docs'',
      entry_type = ''note'', entry_project = None,
      entry_timestamp = ''2024-01-02T14:30:00.500000+00:00''\<rparr>"

definition jan_3_decision :: entry where
  "jan_3_decision =
     \<lparr>entry_id = ''entry_080000_0100'', entry_content = ''Use SQLite'',
      entry_type = ''decision'', entry_project = None,
      entry_timestamp = ''2024-01-03T08:00:00+00:00''\<rparr>"

definition jan_3_work :: entry where
  "jan_3_work =
     \<lparr>entry_id = ''entry_114510_0230'', entry_content = ''Finished the schema'',
      entry_type = ''work'', entry_project = Some ''compiler'',
      entry_timestamp = ''2024-01-03T11:45:10+00:00''\<rparr>"

definition three_days :: journal where
  "three_days =
     (\<lambda>name. Missing)
       (''2024-01-01'' := Exists (Inr [jan_1_work]),
        ''2024-01-02'' := Exists (Inr [jan_2_note]),
        ''2024-01-03'' := Exists (Inr [jan_3_decision, jan_3_work]))"

text \<open>A stand-in for Python's \<^verbatim>\<open>hash\<close>.\<close>

definition length_hash :: "string \<Rightarrow> int" where
  "length_hash s = int (length s)"

definition two_notes_one_forgotten :: "memory_call list" where
  "two_notes_one_forgotten =
     [Remember \<lparr>remember_content = ''first'', remember_tags = Some ''a,b'',
                remember_importance = Some 70\<rparr> ''2024-01-01T10:00:00+00:00'',
      Remember \<lparr>remember_content = ''second'', remember_tags = None,
                remember_importance = None\<rparr> ''2024-01-01T10:05:00+00:00'',
      Forget \<lparr>forget_memory_id = ''mem_0001'', forget_confirm = True\<rparr>,
      Remember \<lparr>remember_content = ''third'', remember_tags = None,
                remember_importance = None\<rparr> ''2024-01-01T10:10:00+00:00'']"

definition two_logs :: "(datetime \<times> LogInput) list" where
  "two_logs =
     [(\<lparr>dt_ordinal = 738888, dt_hour = 9, dt_minute = 5, dt_second = 0, dt_microsecond = 0\<rparr>,
       \<lparr>log_content = ''Started the parser'', log_entry_type = WORK,
        log_project = Some ''compiler''\<rparr>),
      (\<lparr>dt_ordinal = 738888, dt_hour = 17, dt_minute = 30, dt_second = 15,
        dt_microsecond = 250\<rparr>,
       \<lparr>log_content = ''Parser done'', log_entry_type = WIN, log_project = None\<rparr>)]"

definition two_logged :: "entry list" where
  "two_logged =
     [\<lparr>entry_id = ''entry_090500_0018'', entry_content = ''Started the parser'',
       entry_type = ''work'', entry_project = Some ''compiler'',
       entry_timestamp = ''2024-01-03T09:05:00+00:00''\<rparr>,
      \<lparr>entry_id = ''entry_173015_0011'', entry_content = ''Parser done'',
       entry_type = ''win'', entry_project = None,
       entry_timestamp = ''2024-01-03T17:30:15.000250+00:00''\<rparr>]"

definition last_three_days :: ReviewInput where
  "last_three_days =
     \<lparr>review_date = Some noon_jan_2, review_days = Some 3, review_entry_type = None\<rparr>"

definition work_of_jan_2 :: ReviewInput where
  "work_of_jan_2 = \<lparr>review_date = None, review_days = Some 1, review_entry_type = Some WORK\<rparr>"

definition three_days_found :: "nat \<Rightarrow> entry list" where
  "three_days_found i =
     (if i = 0 then [jan_3_decision, jan_3_work] else if i = 1 then [jan_2_note] else [jan_1_work])"

definition three_days_report :: "(string \<times> entry) list" where
  "three_days_report =
     [(''2024-01-03'', jan_3_work), (''2024-01-03'', jan_3_decision),
      (''2024-01-02'', jan_2_note), (''2024-01-01'', jan_1_work)]"

definition misfiled_note :: entry where
  "misfiled_note =
     \<lparr>entry_id = ''entry_100000_0005'', entry_content = ''Moved from another day'',
      entry_type = ''note'', entry_project = None,
      entry_timestamp = ''2024-01-04T10:00:00+00:00''\<rparr>"

definition misfiled_days :: journal where
  "misfiled_days =
     (\<lambda>name. Missing)
       (''2024-01-02'' := Exists (Inr [misfiled_note]),
        ''2024-01-03'' := Exists (Inr [jan_3_decision]))"

definition last_two_days :: ReviewInput where
  "last_two_days = \<lparr>review_date = None, review_days = Some 2, review_entry_type = None\<rparr>"

definition three_days_stamped :: "(string \<times> entry) list" where
  "three_days_stamped =
     [(''2024-01-03'', jan_3_decision), (''2024-01-03'', jan_3_work),
      (''2024-01-02'', jan_2_note), (''2024-01-01'', jan_1_work)]"

definition three_days_lines :: "string list" where
  "three_days_lines =
     [''# Journal - Last 3 Days'' @ [newline],
      ''**Total entries:** 4'' @ [newline],
      ''---'' @ [newline],
      [newline] @ ''## 2024-01-03'' @ [newline],
      ''**[11:45] WORK [compiler]**'' @ [newline] @ ''Finished the schema'' @ [newline],
      ''**[08:00] DECISION**'' @ [newline] @ ''Use SQLite'' @ [newline],
      [newline] @ ''## 2024-01-02'' @ [newline],
      ''**[14:30] NOTE**'' @ [newline] @ ''Remember to update the docs'' @ [newline],
      [newline] @ ''## 2024-01-01'' @ [newline],
      ''**[09:15] WORK [compiler]**'' @ [newline] @ ''Wrote the parser'' @ [newline]]"

definition misfiled_lines :: "string list" where
  "misfiled_lines =
     [''# Journal - Last 2 Days'' @ [newline],
      ''**Total entries:** 2'' @ [newline],
      ''---'' @ [newline],
      [newline] @ ''## 2024-01-02'' @ [newline],
      ''**[10:00] NOTE**'' @ [newline] @ ''Moved from another day'' @ [newline],
      [newline] @ ''## 2024-01-03'' @ [newline],
      ''**[08:00] DECISION**'' @ [newline] @ ''Use SQLite'' @ [newline]]"

section \<open>Loading and saving\<close>

lemma load_save_memories: "load_memories (save_memories data) = Inr data"
  by (simp add: load_memories_def save_memories_def load_file_def save_file_def)

lemma load_save_custom_prompts: "load_custom_prompts (save_custom_prompts c) = Inr c"
  by (simp add: load_custom_prompts_def save_custom_prompts_def load_file_def save_file_def)

text \<open>
  A file that is missing, that cannot be read (\<^verbatim>\<open>IOError\<close>) or whose text is not JSON
  (\<^verbatim>\<open>JSONDecodeError\<close>) is loaded as the default.
\<close>

lemma load_default_when_caught:
  "f = Missing \<or> f = Exists (Inl IOError) \<or> f = Exists (Inl JSONDecodeError)
     \<Longrightarrow> load_file dflt f = Inr dflt"
  by (auto simp: load_file_def)

text \<open>
  C6: reading a store whose file is missing, unreadable or malformed gives the empty
  default and never raises. The three loaders do so for a missing file, an
  \<^verbatim>\<open>IOError\<close> and a \<^verbatim>\<open>JSONDecodeError\<close> (\<open>load_default_when_caught\<close>), and they
  do not for a file whose bytes are not valid UTF-8: \<^verbatim>\<open>read_text\<close> raises
  \<^verbatim>\<open>UnicodeDecodeError\<close>, which the \<^verbatim>\<open>except\<close> clause does not name, and the
  exception reaches the caller of each loader.
\<close>

theorem load_undecodable_raises:
  "load_journal (j(get_journal_file date := Exists (Inl UnicodeDecodeError))) date
     = Inl UnicodeDecodeError
   \<and> load_memories (Exists (Inl UnicodeDecodeError)) = Inl UnicodeDecodeError
   \<and> load_custom_prompts (Exists (Inl UnicodeDecodeError)) = Inl UnicodeDecodeError"
  by (simp add: load_journal_def load_memories_def load_custom_prompts_def load_file_def)

section \<open>Forgetting a memory\<close>

lemma pop_by_id_absent: "mid \<notin> mem_id ` set ms \<Longrightarrow> pop_by_id mid ms = None"
  by (induction ms) auto

lemma pop_by_id_first:
  "mid \<notin> mem_id ` set before \<Longrightarrow> mem_id m = mid
     \<Longrightarrow> pop_by_id mid (before @ m # after) = Some (m, before @ after)"
  by (induction before) auto

text \<open>
  C7: \<^verbatim>\<open>ea_forget\<close> with \<^verbatim>\<open>confirm=False\<close> returns the message asking for
  \<^verbatim>\<open>confirm=True\<close> and leaves the file as it is, whatever the file; with
  \<^verbatim>\<open>confirm=True\<close> and the id of a stored memory it writes the document without the
  first memory of that id, every other memory and \<^verbatim>\<open>next_id\<close> unchanged.
\<close>

theorem forget_confirmation_gate:
  "ea_forget \<lparr>forget_memory_id = mid, forget_confirm = False\<rparr> f
     = Inr (''Set confirm=True to delete. This action cannot be undone.'', f)
   \<and> (load_memories f = Inr data \<and> memories data = before @ m # after
        \<and> mem_id m = mid \<and> mid \<notin> mem_id ` set before
      \<longrightarrow> ea_forget \<lparr>forget_memory_id = mid, forget_confirm = True\<rparr> f
            = Inr (forget_deleted mid m, save_memories (data\<lparr>memories := before @ after\<rparr>))
          \<and> load_memories (save_memories (data\<lparr>memories := before @ after\<rparr>))
            = Inr (data\<lparr>memories := before @ after\<rparr>))"
  by (auto simp: ea_forget_def forget_unconfirmed_def pop_by_id_first load_save_memories)

theorem forget_confirmation_gate_witness:
  "ea_forget \<lparr>forget_memory_id = ''mem_0001'', forget_confirm = False\<rparr> (Exists (Inr alpha_store))
     = Inr (''Set confirm=True to delete. This action cannot be undone.'',
            Exists (Inr alpha_store))
   \<and> ea_forget \<lparr>forget_memory_id = ''mem_0001'', forget_confirm = True\<rparr> (Exists (Inr alpha_store))
     = Inr (''Deleted: mem_0001'' @ [newline] @ ''Content was: alpha'',
            Exists (Inr \<lparr>memories = [], next_id = 2\<rparr>))"
  using forget_confirmation_gate [of "''mem_0001''" "Exists (Inr alpha_store)" alpha_store
      "[]" alpha_memory "[]"]
  by (simp add: load_memories_def load_file_def save_memories_def save_file_def
      forget_deleted_def alpha_store_def alpha_memory_def)

text \<open>
  C10: \<^verbatim>\<open>ea_forget\<close> with \<^verbatim>\<open>confirm=True\<close> and an id that no stored memory has
  returns the not-found message and writes nothing: the file is the one given, so the
  memories and \<^verbatim>\<open>next_id\<close> are as before.
\<close>

theorem forget_unknown_id_no_write:
  "load_memories f = Inr data \<Longrightarrow> mid \<notin> mem_id ` set (memories data)
     \<Longrightarrow> ea_forget \<lparr>forget_memory_id = mid, forget_confirm = True\<rparr> f
          = Inr (''Memory not found: '' @ mid @ ''. Use ea_list to see available memory IDs.'', f)"
  by (simp add: ea_forget_def pop_by_id_absent forget_not_found_def)

theorem forget_unknown_id_no_write_witness:
  "ea_forget \<lparr>forget_memory_id = ''mem_0007'', forget_confirm = True\<rparr> (Exists (Inr alpha_store))
     = Inr (''Memory not found: mem_0007. Use ea_list to see available memory IDs.'',
            Exists (Inr alpha_store))
   \<and> ea_forget \<lparr>forget_memory_id = ''mem_0007'', forget_confirm = True\<rparr> Missing
     = Inr (''Memory not found: mem_0007. Use ea_list to see available memory IDs.'', Missing)"
  using forget_unknown_id_no_write [of "Exists (Inr alpha_store)" alpha_store "''mem_0007''"]
    forget_unknown_id_no_write [of Missing empty_store "''mem_0007''"]
  by (simp add: load_memories_def load_file_def alpha_store_def alpha_memory_def empty_store_def)

section \<open>The built-in prompts and the custom prompts\<close>

lemma add_prompt_keeps_builtin_keys:
  assumes "ea_add_prompt params now f = Inr (msg, f')" "load_custom_prompts f = Inr custom"
  shows "\<exists>custom'. load_custom_prompts f' = Inr custom'
           \<and> (\<forall>b \<in> set BUILTIN_PROMPTS. custom' b = custom b)"
  using assms
  by (auto simp: ea_add_prompt_def load_save_custom_prompts split: if_splits)

lemma remove_prompt_keeps_builtin_keys:
  assumes "ea_remove_prompt params f = Inr (msg, f')" "load_custom_prompts f = Inr custom"
  shows "\<exists>custom'. load_custom_prompts f' = Inr custom'
           \<and> (\<forall>b \<in> set BUILTIN_PROMPTS. custom' b = custom b)"
  using assms
  by (auto simp: ea_remove_prompt_def load_save_custom_prompts split: if_splits option.splits)

text \<open>
  C8: for each of the five built-in names and every custom-prompt file,
  \<^verbatim>\<open>ea_add_prompt\<close> with that name and \<^verbatim>\<open>ea_remove_prompt\<close> with that name and
  \<^verbatim>\<open>confirm=True\<close> answer with an error and leave the file as it is; and no call of
  either tool, with any input, changes what the custom-prompt document holds under a
  built-in name: a built-in is never written to it.
\<close>

theorem builtin_prompts_protected:
  assumes "name \<in> set BUILTIN_PROMPTS"
  shows "ea_add_prompt \<lparr>add_name = name, add_description = description,
                        add_template = template, add_arguments = arguments\<rparr> now f
           = Inr (''Error: '' @ quoted name @ '' is a built-in prompt and cannot be overwritten.'', f)
       \<and> ea_remove_prompt \<lparr>remove_name = name, remove_confirm = True\<rparr> f
           = Inr (''Error: '' @ quoted name @ '' is a built-in prompt and cannot be removed.'', f)
       \<and> (\<forall>params t g msg g' custom.
             ea_add_prompt params t g = Inr (msg, g') \<and> load_custom_prompts g = Inr custom
             \<longrightarrow> (\<exists>custom'. load_custom_prompts g' = Inr custom' \<and> custom' name = custom name))
       \<and> (\<forall>params g msg g' custom.
             ea_remove_prompt params g = Inr (msg, g') \<and> load_custom_prompts g = Inr custom
             \<longrightarrow> (\<exists>custom'. load_custom_prompts g' = Inr custom' \<and> custom' name = custom name))"
proof (intro conjI allI impI)
  show "ea_add_prompt \<lparr>add_name = name, add_description = description,
                        add_template = template, add_arguments = arguments\<rparr> now f
           = Inr (''Error: '' @ quoted name @ '' is a built-in prompt and cannot be overwritten.'', f)"
    using assms by (simp add: ea_add_prompt_def add_builtin_error_def)
next
  show "ea_remove_prompt \<lparr>remove_name = name, remove_confirm = True\<rparr> f
           = Inr (''Error: '' @ quoted name @ '' is a built-in prompt and cannot be removed.'', f)"
    using assms by (simp add: ea_remove_prompt_def remove_builtin_error_def)
next
  fix params t g msg g' custom
  assume "ea_add_prompt params t g = Inr (msg, g') \<and> load_custom_prompts g = Inr custom"
  then show "\<exists>custom'. load_custom_prompts g' = Inr custom' \<and> custom' name = custom name"
    using add_prompt_keeps_builtin_keys [of params t g msg g' custom] assms by blast
next
  fix params g msg g' custom
  assume "ea_remove_prompt params g = Inr (msg, g') \<and> load_custom_prompts g = Inr custom"
  then show "\<exists>custom'. load_custom_prompts g' = Inr custom' \<and> custom' name = custom name"
    using remove_prompt_keeps_builtin_keys [of params g msg g' custom] assms by blast
qed

theorem builtin_prompts_protected_witness:
  "ea_add_prompt \<lparr>add_name = ''code-review'', add_description = ''My own review'',
                  add_template = ''Review this: {code}'', add_arguments = Some ''code''\<rparr>
       ''2024-01-01T10:00:00+00:00'' (Exists (Inr [''summarize'' \<mapsto> summarize_prompt]))
     = Inr (''Error: 'code-review' is a built-in prompt and cannot be overwritten.'',
            Exists (Inr [''summarize'' \<mapsto> summarize_prompt]))
   \<and> ea_remove_prompt \<lparr>remove_name = ''code-review'', remove_confirm = True\<rparr>
       (Exists (Inr [''summarize'' \<mapsto> summarize_prompt]))
     = Inr (''Error: 'code-review' is a built-in prompt and cannot be removed.'',
            Exists (Inr [''summarize'' \<mapsto> summarize_prompt]))
   \<and> (\<exists>msg g' custom'.
          ea_add_prompt summarize_again ''2024-01-02T10:00:00+00:00'' Missing = Inr (msg, g')
          \<and> load_custom_prompts g' = Inr custom' \<and> custom' ''code-review'' = None)"
proof -
  have builtin: "''code-review'' \<in> set BUILTIN_PROMPTS"
    by (simp add: BUILTIN_PROMPTS_def)
  have added: "ea_add_prompt summarize_again ''2024-01-02T10:00:00+00:00'' Missing
      = Inr (add_message summarize_again,
             save_custom_prompts
               (Map.empty(add_name summarize_again
                  \<mapsto> new_prompt summarize_again ''2024-01-02T10:00:00+00:00'')))"
    by (simp add: ea_add_prompt_def BUILTIN_PROMPTS_def summarize_again_def
        load_custom_prompts_def load_file_def)
  have loaded: "load_custom_prompts Missing = Inr Map.empty"
    by (simp add: load_custom_prompts_def load_file_def)
  note protected = builtin_prompts_protected [OF builtin, of "''My own review''"
      "''Review this: {code}''" "Some ''code''" "''2024-01-01T10:00:00+00:00''"
      "Exists (Inr [''summarize'' \<mapsto> summarize_prompt])"]
  from protected have first:
    "ea_add_prompt \<lparr>add_name = ''code-review'', add_description = ''My own review'',
                  add_template = ''Review this: {code}'', add_arguments = Some ''code''\<rparr>
       ''2024-01-01T10:00:00+00:00'' (Exists (Inr [''summarize'' \<mapsto> summarize_prompt]))
     = Inr (''Error: 'code-review' is a built-in prompt and cannot be overwritten.'',
            Exists (Inr [''summarize'' \<mapsto> summarize_prompt]))"
    by (simp add: quoted_def)
  from protected have second:
    "ea_remove_prompt \<lparr>remove_name = ''code-review'', remove_confirm = True\<rparr>
       (Exists (Inr [''summarize'' \<mapsto> summarize_prompt]))
     = Inr (''Error: 'code-review' is a built-in prompt and cannot be removed.'',
            Exists (Inr [''summarize'' \<mapsto> summarize_prompt]))"
    by (simp add: quoted_def)
  from protected added loaded have
    "\<exists>custom'. load_custom_prompts
         (save_custom_prompts
            (Map.empty(add_name summarize_again
               \<mapsto> new_prompt summarize_again ''2024-01-02T10:00:00+00:00'')))
        = Inr custom' \<and> custom' ''code-review'' = Map.empty ''code-review''"
    by blast
  with added have third:
    "\<exists>msg g' custom'.
          ea_add_prompt summarize_again ''2024-01-02T10:00:00+00:00'' Missing = Inr (msg, g')
          \<and> load_custom_prompts g' = Inr custom' \<and> custom' ''code-review'' = None"
    by auto
  from first second third show ?thesis
    by blast
qed




section \<open>Sorting\<close>

lemma mset_py_sort_reverse: "mset (py_sort_reverse f xs) = mset xs"
  by (simp add: py_sort_reverse_def)

lemma py_sort_reverse_descending:
  "sorted_wrt (\<lambda>a b. f a \<ge> f b) (py_sort_reverse f xs)"
proof -
  have "sorted_wrt (\<lambda>a b. f a \<le> f b) (sort_key f (rev xs))"
    using sorted_sort_key [of f "rev xs"] by (simp add: sorted_map)
  then show ?thesis
    by (simp add: py_sort_reverse_def sorted_wrt_rev)
qed

lemma py_sort_reverse_stable:
  "filter (\<lambda>x. f x = k) (py_sort_reverse f xs) = filter (\<lambda>x. f x = k) xs"
  by (simp add: py_sort_reverse_def sort_key_stable flip: rev_filter)

lemma recall_key_le: "recall_key a \<le> recall_key b \<longleftrightarrow> ranks_before a b"
  by (auto simp: recall_key_def ranks_before_def less_eq_prod_def)

lemma py_sort_ranked: "sorted_wrt ranks_before (py_sort recall_key xs)"
proof -
  have "sorted (map recall_key (sort_key recall_key xs))"
    by (rule sorted_sort_key)
  then have "sorted_wrt (\<lambda>a b. recall_key a \<le> recall_key b) (sort_key recall_key xs)"
    by (simp add: sorted_map)
  then show ?thesis
    by (simp add: py_sort_def recall_key_le)
qed

lemma py_sort_stable: "filter (\<lambda>x. f x = k) (py_sort f xs) = filter (\<lambda>x. f x = k) xs"
  by (simp add: py_sort_def sort_key_stable)

lemma mset_py_sort: "mset (py_sort f xs) = mset xs"
  by (simp add: py_sort_def)

section \<open>Recalling memories\<close>

text \<open>
  C1: when the query and the tag filter of an \<^verbatim>\<open>ea_recall\<close> call match memories of the
  store, the memories returned are the first \<open>limit\<close> of a list that holds exactly the
  matches, ordered by importance descending and, at equal importance, by creation
  timestamp ascending (the earlier one first); memories of the same importance and
  timestamp keep the order of the store. The count returned is the number of matches.
\<close>

theorem recall_ranked:
  assumes "load_memories f = Inr data"
    and "recall_limit params = Some limit" and "0 < limit"
    and "matches = filter (recall_pass (lower (recall_query params))
                             (parse_tags (recall_tags params))) (memories data)"
    and "matches \<noteq> []"
  shows "\<exists>ranked.
           recall_call params f = Inr (Recall_Found (length matches) (take limit ranked))
         \<and> ea_recall params f
             = Inr (recall_text (Recall_Found (length matches) (take limit ranked)))
         \<and> mset ranked = mset matches
         \<and> sorted_wrt ranks_before ranked
         \<and> (\<forall>k. filter (\<lambda>m. recall_key m = k) ranked = filter (\<lambda>m. recall_key m = k) matches)"
proof -
  let ?ranked = "py_sort recall_key matches"
  from assms(5) have ne: "?ranked \<noteq> []"
    by (metis mset_py_sort mset_zero_iff)
  with assms(3) have shown: "take limit ?ranked \<noteq> []"
    by (cases limit) (auto simp: neq_Nil_conv)
  from assms(4,5) have stored: "memories data \<noteq> []"
    by auto
  have len: "length ?ranked = length matches"
    by (simp add: py_sort_def)
  from assms(1,2,4) stored shown len
  have call: "recall_call params f = Inr (Recall_Found (length matches) (take limit ?ranked))"
    by (simp add: recall_call_def recall_def Let_def)
  then have "ea_recall params f
      = Inr (recall_text (Recall_Found (length matches) (take limit ?ranked)))"
    by (simp add: ea_recall_def)
  with call show ?thesis
    using mset_py_sort [of recall_key matches] py_sort_ranked [of matches]
      py_sort_stable [of recall_key _ matches]
    by blast
qed

lemma ranked_matches:
  "filter (recall_pass (lower ''Note'') (parse_tags None)) (memories ranked_store)
     = [first_ninety, second_fifty, third_ninety]"
  by code_simp

lemma ranked_call:
  "recall_call \<lparr>recall_query = ''Note'', recall_tags = None, recall_limit = Some 2\<rparr>
       (Exists (Inr ranked_store))
     = Inr (Recall_Found 3 [first_ninety, third_ninety])"
  by code_simp

theorem recall_ranked_witness:
  "recall_call \<lparr>recall_query = ''Note'', recall_tags = None, recall_limit = Some 2\<rparr>
       (Exists (Inr ranked_store))
     = Inr (Recall_Found 3 [first_ninety, third_ninety])
   \<and> (\<exists>ranked. take 2 ranked = [first_ninety, third_ninety]
         \<and> mset ranked = mset [first_ninety, second_fifty, third_ninety]
         \<and> sorted_wrt ranks_before ranked)"
proof -
  have loaded: "load_memories (Exists (Inr ranked_store)) = Inr ranked_store"
    by (simp add: load_memories_def load_file_def)
  have "[first_ninety, second_fifty, third_ninety]
      = filter (recall_pass
                 (lower (recall_query \<lparr>recall_query = ''Note'', recall_tags = None,
                                        recall_limit = Some 2\<rparr>))
                 (parse_tags (recall_tags \<lparr>recall_query = ''Note'', recall_tags = None,
                                            recall_limit = Some 2\<rparr>)))
          (memories ranked_store)"
    by (simp add: ranked_matches)
  from recall_ranked [OF loaded _ _ this, of 2]
  obtain ranked where
    "recall_call \<lparr>recall_query = ''Note'', recall_tags = None, recall_limit = Some 2\<rparr>
        (Exists (Inr ranked_store))
       = Inr (Recall_Found (length [first_ninety, second_fifty, third_ninety]) (take 2 ranked))"
    and "mset ranked = mset [first_ninety, second_fifty, third_ninety]"
    and "sorted_wrt ranks_before ranked"
    by auto
  with ranked_call show ?thesis
    by auto
qed


section \<open>Listing memories page by page\<close>

lemma take_then_rest: "take n xs @ drop (length (take n xs)) xs = xs"
  by (metis append_take_drop_id length_take min.commute take_all_iff drop_all nle_le
      append_Nil2 min_def)

lemma list_pages_from_offset:
  assumes "load_memories f = Inr data" and "0 < limit"
  shows "\<exists>pages. list_pages tags limit f offset = Inr pages
           \<and> concat pages
               = drop offset (py_sort_reverse mem_created_at
                                (filter (tags_pass (parse_tags tags)) (memories data)))"
  using assms
proof (induction tags limit f offset rule: list_pages.induct)
  case (1 tags limit f offset)
  let ?rs = "py_sort_reverse mem_created_at
               (filter (tags_pass (parse_tags tags)) (memories data))"
  let ?params = "\<lparr>list_tags = tags, list_limit = Some limit, list_offset = Some offset\<rparr>"
  let ?page = "take limit (drop offset ?rs)"
  show ?case
  proof (cases "?page = []")
    case True
    with \<open>0 < limit\<close> have rest: "drop offset ?rs = []"
      by (cases limit) (auto simp: take_eq_Nil)
    have "list_call ?params f
        = Inr (if memories data = [] then List_Nothing_Stored
               else if offset > 0 then List_No_More (length ?rs)
               else List_No_Tag_Match tags)"
      using \<open>load_memories f = Inr data\<close> rest
      by (simp add: list_call_def list_memories_def Let_def)
    then have "list_pages tags limit f offset = Inr []"
      by (subst list_pages.simps) simp
    with rest show ?thesis by simp
  next
    case False
    then have stored: "memories data \<noteq> []"
      by (auto simp: py_sort_reverse_def)
    with False have call: "list_call ?params f
        = Inr (List_Page ?page (length ?rs) offset)"
      using \<open>load_memories f = Inr data\<close>
      by (simp add: list_call_def list_memories_def Let_def)
    with False have items: "page_items (List_Page ?page (length ?rs) offset) \<noteq> []"
      by simp
    from "1.IH" [OF call items "1.prems"]
    obtain pages where pages: "list_pages tags limit f (offset + length ?page) = Inr pages"
      and rest: "concat pages = drop (offset + length ?page) ?rs"
      by auto
    from call False pages
    have "list_pages tags limit f offset = Inr (?page # pages)"
      by (subst list_pages.simps) simp
    moreover have "?page @ drop (offset + length ?page) ?rs = drop offset ?rs"
      using take_then_rest [of limit "drop offset ?rs"] by (simp add: add.commute)
    ultimately show ?thesis
      using rest by simp
  qed
qed

text \<open>
  C5: a caller that calls \<^verbatim>\<open>ea_list\<close> with the same tags and the same limit (at least
  1), from offset 0 and advancing the offset by the length of each page until a call
  returns no memory, has received pages whose concatenation is the whole result: the
  memories that pass the tag filter, newest creation timestamp first, each of them once.
\<close>

theorem list_pages_complete:
  assumes "load_memories f = Inr data" and "0 < limit"
    and "matches = filter (tags_pass (parse_tags tags)) (memories data)"
  shows "\<exists>pages. list_pages tags limit f 0 = Inr pages
           \<and> concat pages = py_sort_reverse mem_created_at matches
           \<and> mset (concat pages) = mset matches
           \<and> sorted_wrt (\<lambda>a b. mem_created_at a \<ge> mem_created_at b) (concat pages)"
proof -
  from list_pages_from_offset [OF assms(1,2), of tags 0] assms(3)
  obtain pages where "list_pages tags limit f 0 = Inr pages"
    and "concat pages = py_sort_reverse mem_created_at matches"
    by auto
  then show ?thesis
    using mset_py_sort_reverse [of mem_created_at matches]
      py_sort_reverse_descending [of mem_created_at matches]
    by auto
qed

lemma ranked_pages:
  "list_pages None 2 (Exists (Inr ranked_store)) 0
     = Inr [[third_ninety, second_fifty], [first_ninety]]"
  by code_simp

theorem list_pages_complete_witness:
  "list_pages None 2 (Exists (Inr ranked_store)) 0
     = Inr [[third_ninety, second_fifty], [first_ninety]]
   \<and> mset [third_ninety, second_fifty, first_ninety]
       = mset [first_ninety, second_fifty, third_ninety]
   \<and> sorted_wrt (\<lambda>a b. mem_created_at a \<ge> mem_created_at b)
       [third_ninety, second_fifty, first_ninety]"
proof -
  have loaded: "load_memories (Exists (Inr ranked_store)) = Inr ranked_store"
    by (simp add: load_memories_def load_file_def)
  have all: "[first_ninety, second_fifty, third_ninety]
      = filter (tags_pass (parse_tags None)) (memories ranked_store)"
    by (simp add: parse_tags_def tags_pass_def ranked_store_def)
  from list_pages_complete [OF loaded _ all, of 2]
  obtain pages where "list_pages None 2 (Exists (Inr ranked_store)) 0 = Inr pages"
    and perm: "mset (concat pages) = mset [first_ninety, second_fifty, third_ninety]"
    and newest_first: "sorted_wrt (\<lambda>a b. mem_created_at a \<ge> mem_created_at b) (concat pages)"
    by auto
  with ranked_pages have "concat pages = [third_ninety, second_fifty, first_ninety]"
    by simp
  with perm newest_first ranked_pages show ?thesis
    by simp
qed

section \<open>The ids of the memories\<close>

lemma number_of_snoc: "number_of (s @ [c]) = 10 * number_of s + digit_value c"
  by (simp add: number_of_def)

lemma digit_value_digit_char: "d < 10 \<Longrightarrow> digit_value (digit_char d) = d"
  by (simp add: digit_value_def digit_char_def)

lemma number_of_digits: "number_of (digits n) = n"
proof (induction n rule: digits.induct)
  case (1 n)
  show ?case
  proof (cases "n < 10")
    case True
    then show ?thesis
      by (subst digits.simps) (simp add: number_of_def digit_value_digit_char)
  next
    case False
    with "1.IH" have "number_of (digits (n div 10)) = n div 10"
      by simp
    with False show ?thesis
      by (subst digits.simps) (simp add: number_of_snoc digit_value_digit_char)
  qed
qed

lemma number_of_zeros: "number_of (replicate k CHR ''0'' @ s) = number_of s"
proof -
  have "foldl (\<lambda>acc c. 10 * acc + digit_value c) 0 (replicate k CHR ''0'') = 0"
    by (induction k) (simp_all add: digit_value_def)
  then show ?thesis
    by (simp add: number_of_def)
qed

lemma id_suffix_generated: "0 \<le> n \<Longrightarrow> id_suffix (''mem_'' @ fmt_0d 4 n) = n"
  by (simp add: id_suffix_def fmt_0d_def zfill_def number_of_zeros number_of_digits)

lemma remember_fields:
  "\<exists>memory. remember params now data
       = (memory, data\<lparr>memories := memories data @ [memory], next_id := next_id data + 1\<rparr>)
     \<and> mem_id memory = ''mem_'' @ fmt_0d 4 (next_id data)"
  by (simp add: remember_def generate_id_def Let_def)

text \<open>The answer of \<^verbatim>\<open>ea_remember\<close> begins with the id of the memory it has stored.\<close>

lemma ea_remember_reports_id:
  assumes "ea_remember_memory params now f = Inr (memory, f')"
  shows "ea_remember params now f = Inr (remember_message memory, f')"
    and "prefix (''Remembered: '' @ mem_id memory @ [newline]) (remember_message memory)"
  using assms by (simp_all add: ea_remember_def remember_message_def)

lemma counter_above_ids_remember:
  assumes "counter_above_ids data" and "0 \<le> next_id data"
    and "mem_id memory = ''mem_'' @ fmt_0d 4 (next_id data)"
  shows "counter_above_ids (data\<lparr>memories := memories data @ [memory], next_id := next_id data + 1\<rparr>)"
proof -
  from assms(2,3) have "id_suffix (mem_id memory) = next_id data"
    by (simp only: id_suffix_generated)
  with assms(1) show ?thesis
    by (auto simp: counter_above_ids_def list_all_iff)
qed

lemma pop_by_id_subset: "pop_by_id mid ms = Some (removed, rest) \<Longrightarrow> set rest \<subseteq> set ms"
  by (induction ms arbitrary: rest) (auto split: if_splits option.splits)

lemma forget_keeps_counter:
  assumes "ea_forget params f = Inr (msg, f')" and "load_memories f = Inr data"
  shows "\<exists>data'. load_memories f' = Inr data' \<and> next_id data' = next_id data
           \<and> set (memories data') \<subseteq> set (memories data)"
  using assms
  by (auto simp: ea_forget_def load_save_memories split: if_splits option.splits
        dest: pop_by_id_subset)

lemma forget_returns:
  "load_memories f = Inr data \<Longrightarrow> \<exists>msg f'. ea_forget params f = Inr (msg, f')"
  by (auto simp: ea_forget_def split: option.splits)

lemma map_from_zero: "map g [0 ..< Suc n] = g 0 # map (\<lambda>i. g (Suc i)) [0 ..< n]"
  by (simp add: map_upt_Suc del: upt_Suc)

lemma run_calls_numbered:
  assumes "load_memories f = Inr data" and "counter_above_ids data" and "0 \<le> next_id data"
  shows "\<exists>f' data'.
           run_calls cs f
             = Inr (map (\<lambda>i. ''mem_'' @ fmt_0d 4 (next_id data + int i)) [0 ..< count_remember cs], f')
         \<and> load_memories f' = Inr data'
         \<and> next_id data' = next_id data + int (count_remember cs)
         \<and> counter_above_ids data'"
  using assms
proof (induction cs arbitrary: f data)
  case Nil
  then show ?case by simp
next
  case (Cons c cs)
  show ?case
  proof (cases c)
    case (Remember params now)
    from remember_fields [of params now data] obtain memory where
      step: "remember params now data
               = (memory, data\<lparr>memories := memories data @ [memory], next_id := next_id data + 1\<rparr>)"
      and new_id: "mem_id memory = ''mem_'' @ fmt_0d 4 (next_id data)"
      by blast
    let ?data1 = "data\<lparr>memories := memories data @ [memory], next_id := next_id data + 1\<rparr>"
    from step Cons.prems(1)
    have call: "ea_remember_memory params now f = Inr (memory, save_memories ?data1)"
      by (simp add: ea_remember_memory_def)
    have above: "counter_above_ids ?data1"
      using counter_above_ids_remember [OF Cons.prems(2,3) new_id] .
    from Cons.prems(3) have nonneg: "0 \<le> next_id ?data1"
      by simp
    from Cons.IH [OF load_save_memories above nonneg]
    obtain f' data' where
      rest: "run_calls cs (save_memories ?data1)
               = Inr (map (\<lambda>i. ''mem_'' @ fmt_0d 4 (next_id ?data1 + int i))
                        [0 ..< count_remember cs], f')"
      and after: "load_memories f' = Inr data'"
        "next_id data' = next_id ?data1 + int (count_remember cs)"
        "counter_above_ids data'"
      by blast
    have "map (\<lambda>i. ''mem_'' @ fmt_0d 4 (next_id data + int i)) [0 ..< Suc (count_remember cs)]
        = mem_id memory # map (\<lambda>i. ''mem_'' @ fmt_0d 4 (next_id ?data1 + int i))
                            [0 ..< count_remember cs]"
      by (simp add: map_from_zero new_id ac_simps del: upt_Suc)
    with Remember call rest after show ?thesis
      by (simp del: upt_Suc)
  next
    case (Forget params)
    from forget_returns [OF Cons.prems(1), of params]
    obtain msg f1 where call: "ea_forget params f = Inr (msg, f1)"
      by blast
    from forget_keeps_counter [OF call Cons.prems(1)]
    obtain data1 where loaded: "load_memories f1 = Inr data1"
      and same: "next_id data1 = next_id data"
      and fewer: "set (memories data1) \<subseteq> set (memories data)"
      by blast
    from Cons.prems(2) same fewer have above: "counter_above_ids data1"
      by (auto simp: counter_above_ids_def list_all_iff)
    from Cons.prems(3) same have nonneg: "0 \<le> next_id data1"
      by simp
    from Cons.IH [OF loaded above nonneg] Forget call same show ?thesis
      by simp
  qed
qed

text \<open>
  C2: a list of \<^verbatim>\<open>ea_remember\<close> calls, with \<^verbatim>\<open>ea_forget\<close> calls anywhere between
  them, run on a store whose counter is above the numbers of its ids, returns and
  assigns the ids numbered \<^verbatim>\<open>next_id\<close>, \<^verbatim>\<open>next_id + 1\<close>, ...: from the empty store
  \<^verbatim>\<open>mem_0001\<close>, \<^verbatim>\<open>mem_0002\<close>, ..., no two the same. After the calls the counter is
  the counter before plus the number of \<^verbatim>\<open>ea_remember\<close> calls, whatever was forgotten,
  and it is above the number of every id of the store. Any first part of the list is
  such a list, so this holds after every call.
\<close>

theorem remember_ids_sequential:
  assumes "load_memories f = Inr data" and "counter_above_ids data" and "0 \<le> next_id data"
  shows "\<exists>ids f' data'.
           run_calls cs f = Inr (ids, f')
         \<and> ids = map (\<lambda>i. ''mem_'' @ fmt_0d 4 (next_id data + int i)) [0 ..< count_remember cs]
         \<and> map id_suffix ids = map (\<lambda>i. next_id data + int i) [0 ..< count_remember cs]
         \<and> distinct ids
         \<and> load_memories f' = Inr data'
         \<and> next_id data' = next_id data + int (count_remember cs)
         \<and> counter_above_ids data'"
proof -
  let ?ids = "map (\<lambda>i. ''mem_'' @ fmt_0d 4 (next_id data + int i)) [0 ..< count_remember cs]"
  from run_calls_numbered [OF assms, of cs]
  obtain f' data' where run: "run_calls cs f = Inr (?ids, f')"
    and after: "load_memories f' = Inr data'"
      "next_id data' = next_id data + int (count_remember cs)" "counter_above_ids data'"
    by blast
  from assms(3) have suffixes:
    "map id_suffix ?ids = map (\<lambda>i. next_id data + int i) [0 ..< count_remember cs]"
    by (simp add: id_suffix_generated del: append.simps)
  have "distinct (map id_suffix ?ids)"
    unfolding suffixes by (simp add: distinct_map inj_on_def)
  then have "distinct ?ids"
    by (simp only: distinct_map)
  with run after suffixes show ?thesis
    by blast
qed

lemma two_notes_run:
  "run_calls two_notes_one_forgotten Missing
     = Inr ([''mem_0001'', ''mem_0002'', ''mem_0003''],
            Exists (Inr \<lparr>memories =
                            [\<lparr>mem_id = ''mem_0002'', mem_content = ''second'', mem_tags = [],
                              mem_importance = 50,
                              mem_created_at = ''2024-01-01T10:05:00+00:00''\<rparr>,
                             \<lparr>mem_id = ''mem_0003'', mem_content = ''third'', mem_tags = [],
                              mem_importance = 50,
                              mem_created_at = ''2024-01-01T10:10:00+00:00''\<rparr>],
                          next_id = 4\<rparr>))"
  by code_simp

theorem remember_ids_sequential_witness:
  "\<exists>f' data'.
     run_calls two_notes_one_forgotten Missing = Inr ([''mem_0001'', ''mem_0002'', ''mem_0003''], f')
     \<and> map id_suffix [''mem_0001'', ''mem_0002'', ''mem_0003''] = [1, 2, 3]
     \<and> load_memories f' = Inr data'
     \<and> next_id data' = 4
     \<and> map mem_id (memories data') = [''mem_0002'', ''mem_0003'']
     \<and> counter_above_ids data'"
proof -
  have fresh: "load_memories Missing = Inr empty_store"
    by (simp add: load_memories_def load_file_def)
  have above: "counter_above_ids empty_store"
    by (simp add: counter_above_ids_def empty_store_def)
  have nonneg: "0 \<le> next_id empty_store"
    by (simp add: empty_store_def)
  have three: "count_remember two_notes_one_forgotten = 3"
    by (simp add: two_notes_one_forgotten_def)
  from remember_ids_sequential [OF fresh above nonneg, of two_notes_one_forgotten]
  obtain ids f' data' where run: "run_calls two_notes_one_forgotten Missing = Inr (ids, f')"
    and suffixes: "map id_suffix ids = map (\<lambda>i. next_id empty_store + int i) [0 ..< 3]"
    and after: "load_memories f' = Inr data'" "next_id data' = next_id empty_store + int 3"
      "counter_above_ids data'"
    unfolding three by blast
  from run two_notes_run have ids: "ids = [''mem_0001'', ''mem_0002'', ''mem_0003'']"
    and f': "f' = Exists (Inr \<lparr>memories =
                            [\<lparr>mem_id = ''mem_0002'', mem_content = ''second'', mem_tags = [],
                              mem_importance = 50,
                              mem_created_at = ''2024-01-01T10:05:00+00:00''\<rparr>,
                             \<lparr>mem_id = ''mem_0003'', mem_content = ''third'', mem_tags = [],
                              mem_importance = 50,
                              mem_created_at = ''2024-01-01T10:10:00+00:00''\<rparr>],
                          next_id = 4\<rparr>)"
    by simp_all
  from after(1) f' have "map mem_id (memories data') = [''mem_0002'', ''mem_0003'']"
    by (auto simp: load_memories_def load_file_def)
  moreover from suffixes ids
  have "map id_suffix [''mem_0001'', ''mem_0002'', ''mem_0003''] = [1, 2, 3]"
    by (simp add: empty_store_def upt_rec [of 0] upt_rec [of 1] upt_rec [of 2] numeral_3_eq_3)
  moreover from after(2) have "next_id data' = 4"
    by (simp add: empty_store_def)
  ultimately have
    "run_calls two_notes_one_forgotten Missing = Inr ([''mem_0001'', ''mem_0002'', ''mem_0003''], f')
     \<and> map id_suffix [''mem_0001'', ''mem_0002'', ''mem_0003''] = [1, 2, 3]
     \<and> load_memories f' = Inr data'
     \<and> next_id data' = 4
     \<and> map mem_id (memories data') = [''mem_0002'', ''mem_0003'']
     \<and> counter_above_ids data'"
    using run ids after(1,3) by simp
  then show ?thesis
    by (intro exI)
qed

section \<open>Logging to the journal\<close>

lemma same_day_file: "dt_ordinal now = day \<Longrightarrow> get_journal_file now = date_name day"
  by (simp add: get_journal_file_def strftime_ymd_def)

lemma ea_log_appends:
  assumes "dt_ordinal now = day" and "load_file [] (j (date_name day)) = Inr old"
  shows "ea_log hash now params j
           = Inr (log_message now params,
                  j(date_name day := save_file (old @ [log_entry hash now params])))"
  using assms
  by (simp add: ea_log_def load_journal_def save_journal_def same_day_file)

lemma load_saved_file: "load_file dflt (save_file doc) = Inr doc"
  by (simp add: load_file_def save_file_def)

text \<open>
  C3: a list of \<^verbatim>\<open>ea_log\<close> calls made on the same UTC day leaves in the file of that
  day the entries the file held before followed by one entry for each call, in the
  order of the calls: starting from an empty file, \<open>N\<close> calls leave exactly \<open>N\<close>
  entries, and no call changes or removes an entry that is already there. The files of
  the other days are untouched.
\<close>

theorem journal_append_only:
  assumes "\<forall>(now, params) \<in> set calls. dt_ordinal now = day"
    and "load_file [] (j (date_name day)) = Inr old"
  shows "\<exists>j'. run_logs hash calls j = Inr j'
           \<and> load_file [] (j' (date_name day))
               = Inr (old @ map (\<lambda>(now, params). log_entry hash now params) calls)
           \<and> (\<forall>name. name \<noteq> date_name day \<longrightarrow> j' name = j name)"
  using assms
proof (induction calls arbitrary: j old)
  case Nil
  then show ?case by simp
next
  case (Cons call calls)
  obtain now params where call: "call = (now, params)"
    by (cases call)
  with Cons.prems(1) have today: "dt_ordinal now = day"
    and later: "\<forall>(now, params) \<in> set calls. dt_ordinal now = day"
    by auto
  let ?j1 = "j(date_name day := save_file (old @ [log_entry hash now params]))"
  have step: "ea_log hash now params j = Inr (log_message now params, ?j1)"
    using ea_log_appends [of now day j old hash params, OF today Cons.prems(2)] .
  have "load_file [] (?j1 (date_name day)) = Inr (old @ [log_entry hash now params])"
    by (simp add: load_saved_file)
  from Cons.IH [of ?j1 "old @ [log_entry hash now params]", OF later this]
  obtain j' where "run_logs hash calls ?j1 = Inr j'"
    and "load_file [] (j' (date_name day))
           = Inr ((old @ [log_entry hash now params])
                    @ map (\<lambda>(now, params). log_entry hash now params) calls)"
    and "\<forall>name. name \<noteq> date_name day \<longrightarrow> j' name = ?j1 name"
    by blast
  with call step show ?case
    by simp
qed

lemma jan_3_name: "date_name 738888 = ''2024-01-03''"
  by code_simp

lemma jan_2_name: "date_name 738887 = ''2024-01-02''"
  by code_simp

lemma jan_1_name: "date_name 738886 = ''2024-01-01''"
  by code_simp

lemma two_logs_entries:
  "map (\<lambda>(now, params). log_entry length_hash now params) two_logs = two_logged"
  by code_simp

theorem journal_append_only_witness:
  "\<exists>j'. run_logs length_hash two_logs (\<lambda>name. Missing) = Inr j'
      \<and> load_file [] (j' ''2024-01-03'') = Inr two_logged
      \<and> length two_logged = 2
      \<and> j' ''2024-01-02'' = Missing"
proof -
  have same_day: "\<forall>(now, params) \<in> set two_logs. dt_ordinal now = 738888"
    by (simp add: two_logs_def)
  have empty: "load_file [] ((\<lambda>name. Missing) (date_name 738888)) = Inr []"
    by (simp add: load_file_def)
  from journal_append_only [of two_logs 738888 "\<lambda>name. Missing" "[]" length_hash,
      OF same_day empty]
  obtain j' where "run_logs length_hash two_logs (\<lambda>name. Missing) = Inr j'"
    and "load_file [] (j' (date_name 738888))
           = Inr ([] @ map (\<lambda>(now, params). log_entry length_hash now params) two_logs)"
    and "\<forall>name. name \<noteq> date_name 738888 \<longrightarrow> j' name = Missing"
    by blast
  then have "run_logs length_hash two_logs (\<lambda>name. Missing) = Inr j'
      \<and> load_file [] (j' ''2024-01-03'') = Inr two_logged
      \<and> length two_logged = 2
      \<and> j' ''2024-01-02'' = Missing"
    by (simp add: jan_3_name two_logs_entries two_logged_def)
  then show ?thesis
    by (intro exI)
qed

section \<open>Reviewing the journal\<close>

lemma all_or_first_error_map:
  "(\<And>x. x \<in> set xs \<Longrightarrow> f x = Inr (g x)) \<Longrightarrow> all_or_first_error (map f xs) = Inr (map g xs)"
  by (induction xs) simp_all

lemma review_dates_window:
  assumes "review_days params = Some n" and "0 < n" and "int n \<le> dt_ordinal now"
  shows "review_dates now params
           = Inr (map (\<lambda>i. now\<lparr>dt_ordinal := dt_ordinal now - int i\<rparr>) [0 ..< n])"
proof -
  from assms(1,2) have given: "days_given params = Some n"
    by (simp add: days_given_def)
  have "all_or_first_error (map (minus_days now) [0 ..< n])
      = Inr (map (\<lambda>i. now\<lparr>dt_ordinal := dt_ordinal now - int i\<rparr>) [0 ..< n])"
    using assms(3) by (intro all_or_first_error_map) (simp add: minus_days_def)
  with given show ?thesis
    by (simp add: review_dates_def)
qed

lemma collect_entries_map:
  "(\<And>i. i \<in> set indices \<Longrightarrow> load_journal j (day i) = Inr (found i))
     \<Longrightarrow> collect_entries j (map day indices)
           = Inr (concat (map (\<lambda>i. map (Pair (strftime_ymd (day i))) (found i)) indices))"
  by (induction indices) simp_all

lemma take_mono_lex: "(s :: 'a :: linorder list) \<le> t \<Longrightarrow> take k s \<le> take k t"
proof (induction k arbitrary: s t)
  case 0
  then show ?case by simp
next
  case (Suc k)
  show ?case
  proof (cases s)
    case Nil
    then show ?thesis by simp
  next
    case (Cons a s')
    with Suc.prems obtain b t' where t: "t = b # t'"
      by (cases t) auto
    with Cons Suc.prems have "a < b \<or> a = b \<and> s' \<le> t'"
      by simp
    with Suc.IH [of s' t'] Cons t show ?thesis
      by auto
  qed
qed

lemma under_headers_review_items:
  "current = None \<or> current = Some c \<Longrightarrow> under_headers c (review_items current xs) = xs"
proof (induction xs arbitrary: current c)
  case Nil
  then show ?case by simp
next
  case (Cons x xs)
  obtain d e where x: "x = (d, e)"
    by (cases x)
  have "under_headers d (review_items (Some d) xs) = xs"
    by (rule Cons.IH) simp
  with x Cons.prems show ?case
    by auto
qed

lemma headers_descend:
  assumes "sorted_wrt (\<lambda>a b. fst a \<ge> fst b) xs"
    and "current = None \<or> (current = Some c \<and> (\<forall>x \<in> set xs. fst x \<le> c))"
  shows "sorted_wrt (>) (item_headers (review_items current xs))
         \<and> (current = Some c \<longrightarrow> (\<forall>h \<in> set (item_headers (review_items current xs)). h < c))
         \<and> set (item_headers (review_items current xs)) \<subseteq> fst ` set xs"
  using assms
proof (induction xs arbitrary: current c)
  case Nil
  then show ?case by simp
next
  case (Cons x xs)
  obtain d e where x: "x = (d, e)"
    by (cases x)
  from Cons.prems(1) x have sorted_rest: "sorted_wrt (\<lambda>a b. fst a \<ge> fst b) xs"
    and below: "\<forall>y \<in> set xs. fst y \<le> d"
    by auto
  from below have "Some d = None \<or> (Some d = Some d \<and> (\<forall>y \<in> set xs. fst y \<le> d))"
    by simp
  from Cons.IH [OF sorted_rest this]
  have rest: "sorted_wrt (>) (item_headers (review_items (Some d) xs))"
    "\<forall>h \<in> set (item_headers (review_items (Some d) xs)). h < d"
    "set (item_headers (review_items (Some d) xs)) \<subseteq> fst ` set xs"
    by auto
  show ?case
  proof (cases "Some d = current")
    case True
    with Cons.prems(2) have "c = d"
      by auto
    with True x rest show ?thesis
      by auto
  next
    case False
    with Cons.prems(2) x have "current = Some c \<longrightarrow> d < c"
      by auto
    with False x rest show ?thesis
      by (auto simp: less_le)
  qed
qed

lemma split_on_not_Nil: "split_on sep s \<noteq> []"
  by (induction s) (auto split: list.splits)

lemma split_on_two_parts:
  "sep \<in> set s \<Longrightarrow> \<exists>a b rest. split_on sep s = a # b # rest"
proof (induction s)
  case Nil
  then show ?case by simp
next
  case (Cons c s)
  show ?case
  proof (cases "c = sep")
    case True
    then show ?thesis
      using split_on_not_Nil [of sep s] by (cases "split_on sep s") auto
  next
    case False
    with Cons obtain a b rest where "split_on sep s = a # b # rest"
      by auto
    with False show ?thesis
      by simp
  qed
qed

lemma format_entry_returns:
  "CHR ''T'' \<in> set (entry_timestamp e) \<Longrightarrow> \<exists>line. format_entry e show_date = Inr line"
  using split_on_two_parts [of "CHR ''T''" "entry_timestamp e"]
  by (auto simp: format_entry_def Let_def)

lemma items_text_returns:
  "\<forall>x \<in> set xs. CHR ''T'' \<in> set (entry_timestamp (snd x))
     \<Longrightarrow> \<exists>body. all_or_first_error (map item_text (review_items current xs)) = Inr body"
proof (induction xs arbitrary: current)
  case Nil
  then show ?case by simp
next
  case (Cons x xs)
  obtain d e where x: "x = (d, e)"
    by (cases x)
  with Cons.prems have here: "CHR ''T'' \<in> set (entry_timestamp e)"
    and later: "\<forall>x \<in> set xs. CHR ''T'' \<in> set (entry_timestamp (snd x))"
    by simp_all
  from format_entry_returns [OF here, of False]
  obtain line where line: "format_entry e False = Inr line"
    by blast
  from Cons.IH [OF later, of "Some d"] obtain body where
    "all_or_first_error (map item_text (review_items (Some d) xs)) = Inr body"
    by blast
  with x line show ?case
    by auto
qed

lemma review_dates_of_days:
  assumes "review_days params = Some n" and "0 < n"
  shows "review_dates now params
           = (if int n \<le> dt_ordinal now then Inr (map (window_day now) [0 ..< n])
              else Inl OverflowError)"
proof (cases "int n \<le> dt_ordinal now")
  case True
  with assms show ?thesis
    by (simp add: review_dates_window window_day_def)
next
  case False
  from assms have given: "days_given params = Some n"
    by (simp add: days_given_def)
  have "all_or_first_error (map (minus_days now) xs) = Inl OverflowError"
    if "\<exists>i \<in> set xs. dt_ordinal now - int i < 1" for xs
    using that
  proof (induction xs)
    case Nil
    then show ?case by simp
  next
    case (Cons x xs)
    show ?case
    proof (cases "dt_ordinal now - int x < 1")
      case True
      then show ?thesis by (simp add: minus_days_def)
    next
      case False
      with Cons show ?thesis by (simp add: minus_days_def)
    qed
  qed
  moreover from False assms(2) have "\<exists>i \<in> set [0 ..< n]. dt_ordinal now - int i < 1"
    by (intro bexI [of _ "n - 1"]) auto
  ultimately show ?thesis
    using given False by (simp add: review_dates_def)
qed

lemma review_ignores_date:
  assumes "review_days params = Some n" and "0 < n"
  shows "review now (params\<lparr>review_date := other\<rparr>) j = review now params j"
proof -
  from assms have given: "days_given params = Some n"
    and given': "days_given (params\<lparr>review_date := other\<rparr>) = Some n"
    by (simp_all add: days_given_def)
  have "review_report (params\<lparr>review_date := other\<rparr>) dates entries
      = review_report params dates entries" for dates entries
    using given given' by (simp add: review_report_def)
  moreover have "review_dates now (params\<lparr>review_date := other\<rparr>) = review_dates now params"
    using given given' by (simp add: review_dates_def)
  ultimately show ?thesis
    using given given'
    by (simp add: review_def Let_def split: sum.splits option.splits)
qed

lemma review_text_report:
  "review_text (Review_Report title report)
     = (case all_or_first_error (map item_text (review_items None report)) of
          Inl e \<Rightarrow> Inl e
        | Inr body \<Rightarrow>
            Inr (join [newline]
                   ([title, ''**Total entries:** '' @ digits (length report) @ [newline],
                     ''---'' @ [newline]] @ body)))"
  by simp

lemma three_days_review:
  "review noon_jan_3 last_three_days three_days
     = Inr (Review_Report (''# Journal - Last 3 Days'' @ [newline]) three_days_report)"
  by code_simp

lemma three_days_headers:
  "item_headers (review_items None three_days_report) = [''2024-01-03'', ''2024-01-02'', ''2024-01-01'']"
  by code_simp

lemma three_days_answer:
  "ea_review noon_jan_3 last_three_days three_days = Inr (join [newline] three_days_lines)"
  by code_simp

lemma three_days_union:
  "concat (map (\<lambda>i. map (Pair (strftime_ymd (window_day noon_jan_3 i))) (three_days_found i))
            [0 ..< 3])
     = three_days_stamped"
  by code_simp

lemma three_days_dated: "dated_by_file three_days_stamped"
  by code_simp

text \<open>
  C4, as stated, fails in two ways. When the call names an entry type, the answer holds
  only the entries of that type, not all the entries of the files of the window: on
  2024-01-02, with a single note in the file of the day, \<^verbatim>\<open>ea_review(days=1,
  entry_type=work)\<close> collects that note and answers that there are no work entries. And
  the headers are the dates of the files in the order of the timestamps, which is a
  descending order of dates only when the timestamps agree with the files: with an
  entry of timestamp 2024-01-04 in the file of 2024-01-02, \<^verbatim>\<open>ea_review(days=2)\<close> on
  2024-01-03 writes the header of 2024-01-02 before the header of 2024-01-03.
\<close>

theorem review_union_and_headers_counterexample:
  "review_dates noon_jan_2 work_of_jan_2 = Inr [noon_jan_2]
   \<and> collect_entries three_days [noon_jan_2] = Inr [(''2024-01-02'', jan_2_note)]
   \<and> review noon_jan_2 work_of_jan_2 three_days = Inr (Review_No_Type_Entries ''work'')
   \<and> ea_review noon_jan_2 work_of_jan_2 three_days = Inr ''No work entries found.''
   \<and> review noon_jan_3 last_two_days misfiled_days
       = Inr (Review_Report (''# Journal - Last 2 Days'' @ [newline])
                [(''2024-01-02'', misfiled_note), (''2024-01-03'', jan_3_decision)])
   \<and> item_headers
         (review_items None [(''2024-01-02'', misfiled_note), (''2024-01-03'', jan_3_decision)])
       = [''2024-01-02'', ''2024-01-03'']
   \<and> ea_review noon_jan_3 last_two_days misfiled_days = Inr (join [newline] misfiled_lines)"
  by code_simp

text \<open>
  C4, amended: in every \<^verbatim>\<open>ea_review\<close> call with \<^verbatim>\<open>days = n\<close> (at least 1) the date
  is ignored, and the window is the \<open>n\<close> consecutive days that end today
  (\<^verbatim>\<open>OverflowError\<close> is raised when they would begin before 0001-01-01). With
  \<open>found i\<close> the entries of the file of the day \<open>i\<close> days before today, the answer
  is made from the union of these entries, restricted to the entry type asked for when
  there is one: a no-entries message when the union, or its restriction, is empty;
  otherwise the report of those entries sorted by timestamp descending, each under a
  header of the date of its file, which \<^verbatim>\<open>ea_review\<close> renders as the title, the
  total, and the headers and entries in that order. The headers descend when the
  timestamp of each of those entries is an ISO timestamp of the date of its file, and
  the text is then returned.
\<close>

theorem review_days_window:
  assumes "review_days params = Some n" and "0 < n"
  shows "review now (params\<lparr>review_date := other\<rparr>) j = review now params j
       \<and> ea_review now (params\<lparr>review_date := other\<rparr>) j = ea_review now params j
       \<and> review_dates now params
           = (if int n \<le> dt_ordinal now then Inr (map (window_day now) [0 ..< n])
              else Inl OverflowError)
       \<and> (int n \<le> dt_ordinal now
            \<and> (\<forall>i<n. load_journal j (window_day now i) = Inr (found i))
            \<and> all_entries
                = concat (map (\<lambda>i. map (Pair (strftime_ymd (window_day now i))) (found i))
                            [0 ..< n])
            \<and> kept = (case review_entry_type params of
                         None \<Rightarrow> all_entries
                       | Some t \<Rightarrow>
                           filter (\<lambda>(d, e). entry_type e = entry_type_value t) all_entries)
          \<longrightarrow> (all_entries = []
                \<longrightarrow> ea_review now params j
                      = Inr (''No journal entries in the last '' @ digits n @ '' days.''))
              \<and> (all_entries \<noteq> [] \<and> kept = []
                \<longrightarrow> (\<exists>t. review_entry_type params = Some t
                       \<and> ea_review now params j
                           = Inr (''No '' @ entry_type_value t @ '' entries found.'')))
              \<and> (kept \<noteq> []
                \<longrightarrow> (\<exists>report.
                       review now params j
                         = Inr (Review_Report
                                  (''# Journal - Last '' @ digits n @ '' Days'' @ [newline]) report)
                     \<and> mset report = mset kept
                     \<and> sorted_wrt
                         (\<lambda>a b. entry_timestamp (snd a) \<ge> entry_timestamp (snd b)) report
                     \<and> under_headers [] (review_items None report) = report
                     \<and> ea_review now params j
                         = (case all_or_first_error
                                   (map item_text (review_items None report)) of
                              Inl e \<Rightarrow> Inl e
                            | Inr body \<Rightarrow>
                                Inr (join [newline]
                                       ([''# Journal - Last '' @ digits n @ '' Days'' @ [newline],
                                         ''**Total entries:** '' @ digits (length report)
                                           @ [newline],
                                         ''---'' @ [newline]] @ body)))
                     \<and> (dated_by_file kept
                          \<longrightarrow> sorted_wrt (>) (item_headers (review_items None report))
                            \<and> (\<exists>body. all_or_first_error
                                         (map item_text (review_items None report))
                                       = Inr body)))))"
proof -
  let ?title = "''# Journal - Last '' @ digits n @ '' Days'' @ [newline]"
  from assms have given: "days_given params = Some n"
    by (simp add: days_given_def)
  have precedence: "review now (params\<lparr>review_date := other\<rparr>) j = review now params j"
    using assms by (rule review_ignores_date)
  then have precedence_text:
    "ea_review now (params\<lparr>review_date := other\<rparr>) j = ea_review now params j"
    by (simp add: ea_review_def)
  have window: "review_dates now params
           = (if int n \<le> dt_ordinal now then Inr (map (window_day now) [0 ..< n])
              else Inl OverflowError)"
    using assms by (rule review_dates_of_days)
  have result:
    "(all_entries = []
        \<longrightarrow> ea_review now params j
              = Inr (''No journal entries in the last '' @ digits n @ '' days.''))
     \<and> (all_entries \<noteq> [] \<and> kept = []
        \<longrightarrow> (\<exists>t. review_entry_type params = Some t
               \<and> ea_review now params j
                   = Inr (''No '' @ entry_type_value t @ '' entries found.'')))
     \<and> (kept \<noteq> []
        \<longrightarrow> (\<exists>report.
               review now params j = Inr (Review_Report ?title report)
             \<and> mset report = mset kept
             \<and> sorted_wrt (\<lambda>a b. entry_timestamp (snd a) \<ge> entry_timestamp (snd b)) report
             \<and> under_headers [] (review_items None report) = report
             \<and> ea_review now params j
                 = (case all_or_first_error (map item_text (review_items None report)) of
                      Inl e \<Rightarrow> Inl e
                    | Inr body \<Rightarrow>
                        Inr (join [newline]
                               ([?title,
                                 ''**Total entries:** '' @ digits (length report) @ [newline],
                                 ''---'' @ [newline]] @ body)))
             \<and> (dated_by_file kept
                  \<longrightarrow> sorted_wrt (>) (item_headers (review_items None report))
                    \<and> (\<exists>body. all_or_first_error (map item_text (review_items None report))
                               = Inr body))))"
    if clock: "int n \<le> dt_ordinal now"
      and files: "\<forall>i<n. load_journal j (window_day now i) = Inr (found i)"
      and union: "all_entries
                = concat (map (\<lambda>i. map (Pair (strftime_ymd (window_day now i))) (found i))
                            [0 ..< n])"
      and kept: "kept = (case review_entry_type params of
                         None \<Rightarrow> all_entries
                       | Some t \<Rightarrow>
                           filter (\<lambda>(d, e). entry_type e = entry_type_value t) all_entries)"
  proof -
    from window clock have dates: "review_dates now params = Inr (map (window_day now) [0 ..< n])"
      by simp
    have "collect_entries j (map (window_day now) [0 ..< n])
        = Inr (concat (map (\<lambda>i. map (Pair (strftime_ymd (window_day now i))) (found i))
                 [0 ..< n]))"
      using files by (intro collect_entries_map) simp
    with union have collected:
      "collect_entries j (map (window_day now) [0 ..< n]) = Inr all_entries"
      by simp
    have none: "ea_review now params j
        = Inr (''No journal entries in the last '' @ digits n @ '' days.'')"
      if "all_entries = []"
      using that dates collected given by (simp add: ea_review_def review_def)
    have no_type: "\<exists>t. review_entry_type params = Some t
                   \<and> ea_review now params j
                       = Inr (''No '' @ entry_type_value t @ '' entries found.'')"
      if "all_entries \<noteq> []" "kept = []"
      using that kept dates collected
      by (cases "review_entry_type params") (auto simp: ea_review_def review_def)
    let ?report = "py_sort_reverse (\<lambda>(d, e). entry_timestamp e) kept"
    have report: "\<exists>report.
               review now params j = Inr (Review_Report ?title report)
             \<and> mset report = mset kept
             \<and> sorted_wrt (\<lambda>a b. entry_timestamp (snd a) \<ge> entry_timestamp (snd b)) report
             \<and> under_headers [] (review_items None report) = report
             \<and> ea_review now params j
                 = (case all_or_first_error (map item_text (review_items None report)) of
                      Inl e \<Rightarrow> Inl e
                    | Inr body \<Rightarrow>
                        Inr (join [newline]
                               ([?title,
                                 ''**Total entries:** '' @ digits (length report) @ [newline],
                                 ''---'' @ [newline]] @ body)))
             \<and> (dated_by_file kept
                  \<longrightarrow> sorted_wrt (>) (item_headers (review_items None report))
                    \<and> (\<exists>body. all_or_first_error (map item_text (review_items None report))
                               = Inr body))"
      if some: "kept \<noteq> []"
    proof -
      from some kept have stored: "all_entries \<noteq> []"
        by (auto split: option.splits)
      have reviewed: "review now params j = Inr (Review_Report ?title ?report)"
        using some stored kept dates collected given
        by (cases "review_entry_type params") (auto simp: review_def review_report_def Let_def)
      then have answered: "ea_review now params j
          = (case all_or_first_error (map item_text (review_items None ?report)) of
               Inl e \<Rightarrow> Inl e
             | Inr body \<Rightarrow>
                 Inr (join [newline]
                        ([?title,
                          ''**Total entries:** '' @ digits (length ?report) @ [newline],
                          ''---'' @ [newline]] @ body)))"
        by (simp only: ea_review_def sum.case review_text_report)
      have perm: "mset ?report = mset kept"
        by (rule mset_py_sort_reverse)
      have by_time:
        "sorted_wrt (\<lambda>a b. entry_timestamp (snd a) \<ge> entry_timestamp (snd b)) ?report"
        using py_sort_reverse_descending [of "\<lambda>(d, e). entry_timestamp e" kept]
        by (simp add: case_prod_beta)
      have grouped: "under_headers [] (review_items None ?report) = ?report"
        by (rule under_headers_review_items) simp
      have dated: "sorted_wrt (>) (item_headers (review_items None ?report))
                    \<and> (\<exists>body. all_or_first_error (map item_text (review_items None ?report))
                               = Inr body)"
        if "dated_by_file kept"
      proof -
        have "set ?report = set kept"
          using perm by (rule mset_eq_setD)
        with that have stamped:
          "\<forall>x \<in> set ?report. take 10 (entry_timestamp (snd x)) = fst x
                                \<and> CHR ''T'' \<in> set (entry_timestamp (snd x))"
          by (auto simp: dated_by_file_def list_all_iff)
        have by_date: "sorted_wrt (\<lambda>a b. fst a \<ge> fst b) ?report"
        proof (rule sorted_wrt_mono_rel [OF _ by_time])
          fix a b
          assume "a \<in> set ?report" "b \<in> set ?report"
            and "entry_timestamp (snd b) \<le> entry_timestamp (snd a)"
          with stamped take_mono_lex [of "entry_timestamp (snd b)" "entry_timestamp (snd a)" 10]
          show "fst b \<le> fst a"
            by auto
        qed
        have "sorted_wrt (>) (item_headers (review_items None ?report))"
          using headers_descend [OF by_date, of None] by simp
        moreover from stamped have
          "\<exists>body. all_or_first_error (map item_text (review_items None ?report)) = Inr body"
          using items_text_returns [of ?report None] by blast
        ultimately show ?thesis
          by blast
      qed
      from reviewed perm by_time grouped answered dated show ?thesis
        by blast
    qed
    from none no_type report show ?thesis
      by blast
  qed
  from precedence precedence_text window result show ?thesis
    by blast
qed

theorem review_days_window_witness:
  "review noon_jan_3 (last_three_days\<lparr>review_date := None\<rparr>) three_days
     = review noon_jan_3 last_three_days three_days
   \<and> ea_review noon_jan_3 (last_three_days\<lparr>review_date := None\<rparr>) three_days
     = ea_review noon_jan_3 last_three_days three_days
   \<and> review_dates noon_jan_3 last_three_days
       = Inr [noon_jan_3, noon_jan_3\<lparr>dt_ordinal := 738887\<rparr>, noon_jan_3\<lparr>dt_ordinal := 738886\<rparr>]
   \<and> review noon_jan_3 last_three_days three_days
       = Inr (Review_Report (''# Journal - Last 3 Days'' @ [newline]) three_days_report)
   \<and> mset three_days_report = mset three_days_stamped
   \<and> item_headers (review_items None three_days_report)
       = [''2024-01-03'', ''2024-01-02'', ''2024-01-01'']
   \<and> under_headers [] (review_items None three_days_report) = three_days_report
   \<and> ea_review noon_jan_3 last_three_days three_days = Inr (join [newline] three_days_lines)"
proof -
  have days: "review_days last_three_days = Some 3" "0 < (3::nat)"
    by (simp_all add: last_three_days_def)
  have clock: "int 3 \<le> dt_ordinal noon_jan_3"
    by (simp add: noon_jan_3_def)
  have files: "\<forall>i<3. load_journal three_days (window_day noon_jan_3 i) = Inr (three_days_found i)"
  proof (intro allI impI)
    fix i :: nat
    assume "i < 3"
    then consider "i = 0" | "i = 1" | "i = 2"
      by linarith
    then show "load_journal three_days (window_day noon_jan_3 i) = Inr (three_days_found i)"
      by cases
        (simp_all add: load_journal_def get_journal_file_def strftime_ymd_def window_day_def
          noon_jan_3_def jan_3_name jan_2_name jan_1_name three_days_def three_days_found_def
          load_file_def)
  qed
  have kept: "three_days_stamped
      = (case review_entry_type last_three_days of
           None \<Rightarrow> three_days_stamped
         | Some t \<Rightarrow> filter (\<lambda>(d, e). entry_type e = entry_type_value t) three_days_stamped)"
    by (simp add: last_three_days_def)
  have some: "three_days_stamped \<noteq> []"
    by (simp add: three_days_stamped_def)
  note window = review_days_window [OF days, where now = noon_jan_3 and other = None
      and j = three_days and found = three_days_found and all_entries = three_days_stamped
      and kept = three_days_stamped]
  from window have precedence:
    "review noon_jan_3 (last_three_days\<lparr>review_date := None\<rparr>) three_days
       = review noon_jan_3 last_three_days three_days"
    "ea_review noon_jan_3 (last_three_days\<lparr>review_date := None\<rparr>) three_days
       = ea_review noon_jan_3 last_three_days three_days"
    by blast+
  from window clock have
    "review_dates noon_jan_3 last_three_days = Inr (map (window_day noon_jan_3) [0 ..< 3])"
    by simp
  then have dates: "review_dates noon_jan_3 last_three_days
       = Inr [noon_jan_3, noon_jan_3\<lparr>dt_ordinal := 738887\<rparr>, noon_jan_3\<lparr>dt_ordinal := 738886\<rparr>]"
    by (simp add: window_day_def noon_jan_3_def upt_rec [of 0] upt_rec [of 1] upt_rec [of 2]
        numeral_3_eq_3)
  from window clock files three_days_union [symmetric] kept some three_days_dated
  obtain report where
    result: "review noon_jan_3 last_three_days three_days
       = Inr (Review_Report (''# Journal - Last '' @ digits 3 @ '' Days'' @ [newline]) report)"
    and perm: "mset report = mset three_days_stamped"
    and grouped: "under_headers [] (review_items None report) = report"
    by blast
  from result three_days_review have "report = three_days_report"
    by simp
  with perm grouped have "mset three_days_report = mset three_days_stamped"
    and "under_headers [] (review_items None three_days_report) = three_days_report"
    by simp_all
  with precedence dates three_days_review three_days_headers three_days_answer show ?thesis
    by simp
qed

end
